theory Spec2Isabelle
  imports Complex_Main "HOL-Library.Monad_Syntax" "HOL-Library.Char_ord"
    "HOL-Library.List_Lexorder" "HOL-Library.Product_Lexorder"
begin

section \<open>Python values\<close>

text \<open>
  The program works on decoded JSON documents. A JSON object is a Python \<open>dict\<close> with
  string keys, listed here in insertion order (each key once); numbers are Python
  \<open>int\<close> or \<open>float\<close>, modelled as exact reals (rounding, infinities and NaN are outside
  the model). Strings are character lists; case mapping and white space are ASCII.

  A Python expression that raises is modelled by the value \<open>None\<close> of an option
  type, so that every \<open>try ... except Exception\<close> of the source is a case split.
\<close>

datatype json =
    JNull
  | JBool bool
  | JNum real
  | JStr string
  | JArr "json list"
  | JObj "(string \<times> json) list"

text \<open>Truth value of an object, as read by \<open>if x\<close>, \<open>not x\<close> and \<open>x or y\<close>.\<close>

fun truthy :: "json \<Rightarrow> bool" where
  "truthy JNull = False"
| "truthy (JBool b) = b"
| "truthy (JNum r) = (r \<noteq> 0)"
| "truthy (JStr s) = (s \<noteq> [])"
| "truthy (JArr xs) = (xs \<noteq> [])"
| "truthy (JObj kvs) = (kvs \<noteq> [])"

definition py_or :: "json \<Rightarrow> json \<Rightarrow> json" where
  "py_or a b = (if truthy a then a else b)"

text \<open>\<open>d.get(k, default)\<close>: only a dict has the method, anything else raises AttributeError.\<close>

fun py_get_default :: "json \<Rightarrow> string \<Rightarrow> json \<Rightarrow> json option" where
  "py_get_default (JObj kvs) k d = Some (case map_of kvs k of None \<Rightarrow> d | Some v \<Rightarrow> v)"
| "py_get_default _ k d = None"

definition py_get :: "json \<Rightarrow> string \<Rightarrow> json option" where
  "py_get j k = py_get_default j k JNull"

text \<open>\<open>d.keys()\<close>.\<close>

fun py_keys :: "json \<Rightarrow> string list option" where
  "py_keys (JObj kvs) = Some (map fst kvs)"
| "py_keys _ = None"

text \<open>
  The items visited by \<open>for it in x\<close> and added by \<open>list.extend(x)\<close>: a dict yields its
  keys, a string its characters, a number is not iterable. \<open>len(x)\<close> is the number of
  these items for every iterable value here.
\<close>

fun py_iter :: "json \<Rightarrow> json list option" where
  "py_iter (JArr xs) = Some xs"
| "py_iter (JObj kvs) = Some (map (\<lambda>kv. JStr (fst kv)) kvs)"
| "py_iter (JStr s) = Some (map (\<lambda>c. JStr [c]) s)"
| "py_iter _ = None"

text \<open>\<open>isinstance(x, (int, float))\<close>; \<open>bool\<close> is a subclass of \<open>int\<close>.\<close>

fun is_int_or_float :: "json \<Rightarrow> bool" where
  "is_int_or_float (JNum r) = True"
| "is_int_or_float (JBool b) = True"
| "is_int_or_float _ = False"

text \<open>
  Functions of the Python standard library that parse text are parameters of the model:
  \<open>float(s)\<close> for a string, and the date of the \<open>datetime\<close> returned by
  \<open>datetime.fromisoformat\<close> and \<open>datetime.strptime\<close>, and \<open>date.fromisoformat\<close>.
  \<open>None\<close> is the ValueError of the parser.
\<close>

type_synonym date = int

record pylib =
  float_str :: "string \<Rightarrow> real option"
  datetime_fromisoformat :: "string \<Rightarrow> date option"
  datetime_strptime :: "string \<Rightarrow> string \<Rightarrow> date option"
  date_fromisoformat :: "string \<Rightarrow> date option"

text \<open>
  \<open>float(x)\<close>: TypeError on None, lists and dicts, and OverflowError on an \<open>int\<close> too
  large for a double. The conversion rounds to the nearest double, so the magnitudes
  it rejects start at \<open>2^1024 - 2^970\<close>, half a step above the largest double
  \<open>2^1024 - 2^971\<close>; a decoded \<open>float\<close> is a double and lies below that bound.
\<close>

definition float_limit :: real where
  "float_limit = 2 ^ 1024 - 2 ^ 970"

fun py_float :: "pylib \<Rightarrow> json \<Rightarrow> real option" where
  "py_float L (JNum r) = (if \<bar>r\<bar> < float_limit then Some r else None)"
| "py_float L (JBool b) = Some (if b then 1 else 0)"
| "py_float L (JStr s) = float_str L s"
| "py_float L _ = None"

text \<open>
  \<open>x in s\<close> for a set \<open>s\<close> of strings: the value is hashed first, which raises TypeError
  for a list or a dict.
\<close>

fun py_in_strs :: "json \<Rightarrow> string list \<Rightarrow> bool option" where
  "py_in_strs (JStr k) ks = Some (k \<in> set ks)"
| "py_in_strs (JArr xs) ks = None"
| "py_in_strs (JObj kvs) ks = None"
| "py_in_strs _ ks = Some False"

text \<open>\<open>str(n)\<close> for an int.\<close>

fun str_nat :: "nat \<Rightarrow> string" where
  "str_nat n = (if n < 10 then [char_of (48 + n)] else str_nat (n div 10) @ [char_of (48 + n mod 10)])"

definition str_int :: "int \<Rightarrow> string" where
  "str_int i = (if i < 0 then CHR ''-'' # str_nat (nat (- i)) else str_nat (nat i))"

subsection \<open>Strings\<close>

definition isspace :: "char \<Rightarrow> bool" where
  "isspace c = (c \<in> set [CHR 0x09, CHR 0x0A, CHR 0x0B, CHR 0x0C, CHR 0x0D,
                           CHR 0x1C, CHR 0x1D, CHR 0x1E, CHR 0x1F, CHR 0x20])"

definition strip :: "string \<Rightarrow> string" where
  "strip s = rev (dropWhile isspace (rev (dropWhile isspace s)))"

definition lower_char :: "char \<Rightarrow> char" where
  "lower_char c =
     (let n = (of_char c :: nat) in if 65 \<le> n \<and> n \<le> 90 then char_of (n + 32) else c)"

definition lower :: "string \<Rightarrow> string" where
  "lower s = map lower_char s"

section \<open>Dates\<close>

text \<open>
  A \<open>datetime.date\<close> is its proleptic Gregorian ordinal (\<open>date.toordinal()\<close>), from 1
  (0001-01-01) to 3652059 (9999-12-31). Adding a \<open>timedelta\<close> that leaves this range
  raises OverflowError. Of a \<open>datetime\<close> the program only reads \<open>.date()\<close>, so a datetime
  is modelled by that date.
\<close>

definition date_min :: date where "date_min = 1"
definition date_max :: date where "date_max = 3652059"

definition date_add_days :: "date \<Rightarrow> int \<Rightarrow> date option" where
  "date_add_days d n = (if date_min \<le> d + n \<and> d + n \<le> date_max then Some (d + n) else None)"

text \<open>\<open>date.weekday()\<close>: Monday is 0, Sunday is 6.\<close>

definition weekday :: "date \<Rightarrow> int" where
  "weekday d = (d + 6) mod 7"

text \<open>
  \<open>working_days_since(created_dt, today_date)\<close>. \<open>created\<close> is \<open>None\<close> for a missing
  creation time; \<open>today\<close> is the reference date, which the source reads from the clock in
  the reporting time zone when the caller passes none.
\<close>

function working_days_loop :: "date \<Rightarrow> date \<Rightarrow> int \<Rightarrow> int option" where
  "working_days_loop today d cnt =
     (if d \<le> today then
        (case date_add_days d 1 of
           None \<Rightarrow> None
         | Some d' \<Rightarrow> working_days_loop today d' (if weekday d < 5 then cnt + 1 else cnt))
      else Some cnt)"
  by pat_completeness auto
termination
  by (relation "measure (\<lambda>(today, d, cnt). nat (today - d + 1))")
     (auto simp: date_add_days_def split: if_splits)

definition working_days_since :: "date option \<Rightarrow> date \<Rightarrow> int option" where
  "working_days_since created today =
     (case created of
        None \<Rightarrow> Some 0
      | Some c \<Rightarrow>
          if today \<le> c then Some 0
          else (case date_add_days c 1 of
                  None \<Rightarrow> None
                | Some d \<Rightarrow> working_days_loop today d 0))"

section \<open>Sprint math\<close>

text \<open>
  \<open>sp(est)\<close>, the helper nested in \<open>build_sp_map_from_report\<close> and in
  \<open>compute_committed_completed_from_report\<close> (the same text in both): the numeric
  value of an item's estimate statistic, else its text converted to a number, and 0.0
  when neither is there or anything raises.
\<close>

definition sp :: "pylib \<Rightarrow> json \<Rightarrow> real" where
  "sp L est =
     (case (do {
              sv \<leftarrow> py_get (py_or est (JObj [])) ''statFieldValue'';
              let v = py_or sv (JObj []);
              x \<leftarrow> py_get v ''value'';
              if is_int_or_float x then py_float L x
              else do {
                t \<leftarrow> py_get v ''text'';
                if truthy t then py_float L t else Some 0
              }
            }) of
        Some r \<Rightarrow> r
      | None \<Rightarrow> 0)"

text \<open>\<open>sum(sp(it.get("estimateStatistic")) for it in completed)\<close>.\<close>

fun sum_sp :: "pylib \<Rightarrow> json list \<Rightarrow> real \<Rightarrow> real option" where
  "sum_sp L [] acc = Some acc"
| "sum_sp L (it # its) acc = do {
     est \<leftarrow> py_get it ''estimateStatistic'';
     sum_sp L its (acc + sp L est)
   }"

text \<open>
  The two loops \<open>for it in ...: if it.get("key") not in added_mid: committed_sp += ...\<close>.
\<close>

fun committed_loop :: "pylib \<Rightarrow> string list \<Rightarrow> json list \<Rightarrow> real \<Rightarrow> real option" where
  "committed_loop L added_mid [] committed_sp = Some committed_sp"
| "committed_loop L added_mid (it # its) committed_sp = do {
     k \<leftarrow> py_get it ''key'';
     b \<leftarrow> py_in_strs k added_mid;
     if b then committed_loop L added_mid its committed_sp
     else do {
       est \<leftarrow> py_get it ''estimateStatistic'';
       committed_loop L added_mid its (committed_sp + sp L est)
     }
   }"

text \<open>
  \<open>compute_committed_completed_from_report(report)\<close> returns
  \<open>(committed_sp, completed_sp, scope_change_count, carry_over_count)\<close>.
\<close>

definition compute_committed_completed_from_report ::
    "pylib \<Rightarrow> json \<Rightarrow> (real \<times> real \<times> nat \<times> nat) option" where
  "compute_committed_completed_from_report L report = do {
     c \<leftarrow> py_get_default report ''contents'' (JObj []);
     let contents = py_or c (JObj []);
     cs \<leftarrow> py_get_default contents ''completedIssues'' (JArr []);
     let completed = py_or cs (JArr []);
     ns \<leftarrow> py_get_default contents ''issuesNotCompletedInCurrentSprint'' (JArr []);
     let not_completed = py_or ns (JArr []);
     am \<leftarrow> py_get contents ''issueKeysAddedDuringSprint'';
     added_mid \<leftarrow> py_keys (py_or am (JObj []));
     citems \<leftarrow> py_iter completed;
     completed_sp \<leftarrow> sum_sp L citems 0;
     committed_sp1 \<leftarrow> committed_loop L added_mid citems 0;
     nitems \<leftarrow> py_iter not_completed;
     committed_sp \<leftarrow> committed_loop L added_mid nitems committed_sp1;
     Some (committed_sp, completed_sp, length (remdups added_mid), length nitems)
   }"

text \<open>
  \<open>get_committed_completed_from_velocity(board_id, sprint_id)\<close>. The argument
  \<open>velocity_json\<close> is the response of the velocity endpoint, \<open>None\<close> when the request
  failed. The keys of a decoded JSON object are strings, so the second lookup
  \<open>entries.get(int(sprint_id))\<close> finds nothing. The result is \<open>(None, None)\<close> or a pair
  of numbers.
\<close>

definition get_committed_completed_from_velocity ::
    "pylib \<Rightarrow> json option \<Rightarrow> int \<Rightarrow> real option \<times> real option" where
  "get_committed_completed_from_velocity L velocity_json sprint_id =
     (case (do {
              vj \<leftarrow> velocity_json;
              e \<leftarrow> py_get_default vj ''velocityStatEntries'' (JObj []);
              let entries = py_or e (JObj []);
              e1 \<leftarrow> py_get entries (str_int sprint_id);
              let entry = py_or e1 JNull;
              if truthy entry then do {
                es \<leftarrow> py_get entry ''estimated'';
                ev \<leftarrow> py_get (py_or es (JObj [])) ''value'';
                est \<leftarrow> py_float L (py_or ev (JNum 0));
                cs \<leftarrow> py_get entry ''completed'';
                cv \<leftarrow> py_get (py_or cs (JObj [])) ''value'';
                comp \<leftarrow> py_float L (py_or cv (JNum 0));
                Some (Some est, Some comp)
              } else Some (None, None)
            }) of
        Some r \<Rightarrow> r
      | None \<Rightarrow> (None, None))"

text \<open>
  The block of \<open>main\<close> that chooses between the velocity numbers and the fallback
  computation, for the sprint report \<open>report\<close> already downloaded.
\<close>

definition main_sprint_metrics ::
    "pylib \<Rightarrow> json option \<Rightarrow> int \<Rightarrow> json \<Rightarrow> (real \<times> real \<times> nat \<times> nat) option" where
  "main_sprint_metrics L velocity_json sprint_id report =
     (case get_committed_completed_from_velocity L velocity_json sprint_id of
        (Some est_v, Some comp_v) \<Rightarrow> do {
          (_, _, scope_change_count, carry_over_count) \<leftarrow>
            compute_committed_completed_from_report L report;
          Some (est_v, comp_v, scope_change_count, carry_over_count)
        }
      | _ \<Rightarrow> compute_committed_completed_from_report L report)"

text \<open>Vocabulary of the properties: the key and the effort of an item of the report.\<close>

definition item_key :: "json \<Rightarrow> json" where
  "item_key it = (case py_get it ''key'' of Some k \<Rightarrow> k | None \<Rightarrow> JNull)"

definition item_effort :: "pylib \<Rightarrow> json \<Rightarrow> real" where
  "item_effort L it = (case py_get it ''estimateStatistic'' of Some est \<Rightarrow> sp L est | None \<Rightarrow> 0)"

text \<open>An item of the report is an object whose key, if any, is hashable.\<close>

fun report_item :: "json \<Rightarrow> bool" where
  "report_item (JObj kvs) =
     (case map_of kvs ''key'' of Some (JArr _) \<Rightarrow> False | Some (JObj _) \<Rightarrow> False | _ \<Rightarrow> True)"
| "report_item _ = False"

subsection \<open>Sample inputs\<close>

text \<open>A library in which no string parses, for inputs that hold no text to parse.\<close>

definition lib0 :: pylib where
  "lib0 = \<lparr> float_str = (\<lambda>s. None), datetime_fromisoformat = (\<lambda>s. None),
            datetime_strptime = (\<lambda>s fmt. None), date_fromisoformat = (\<lambda>s. None) \<rparr>"

definition report_entry :: "string \<Rightarrow> real \<Rightarrow> json" where
  "report_entry k v =
     JObj [(''key'', JStr k),
           (''estimateStatistic'', JObj [(''statFieldValue'', JObj [(''value'', JNum v)])])]"

text \<open>
  A sprint report: A (20) and B (5, added during the sprint) completed, C (15) not
  completed.
\<close>

definition report0 :: json where
  "report0 =
     JObj [(''contents'',
        JObj [(''completedIssues'', JArr [report_entry ''A'' 20, report_entry ''B'' 5]),
              (''issuesNotCompletedInCurrentSprint'', JArr [report_entry ''C'' 15]),
              (''issueKeysAddedDuringSprint'', JObj [(''B'', JBool True)])])]"

text \<open>A velocity response with an entry for sprint 7 only.\<close>

definition velocity0 :: json where
  "velocity0 =
     JObj [(''velocityStatEntries'',
        JObj [(''7'', JObj [(''estimated'', JObj [(''value'', JNum 50)]),
                            (''completed'', JObj [(''value'', JNum 35)])])])]"

section \<open>Paginated sprint issues\<close>

text \<open>
  The issue tracker, for one sprint, field list and page size: the response of
  \<open>get_json\<close> to a request with the given \<open>jql\<close> parameter (or none) and \<open>startAt\<close>
  offset, \<open>None\<close> when the request fails after its retries.
\<close>

type_synonym upstream = "string option \<Rightarrow> nat \<Rightarrow> json option"

text \<open>One request and \<open>chunk = (data.get("issues") or [])\<close>, as the items it holds.\<close>

definition fetch_chunk :: "upstream \<Rightarrow> string option \<Rightarrow> nat \<Rightarrow> json list option" where
  "fetch_chunk get jql start_at = do {
     data \<leftarrow> get jql start_at;
     c \<leftarrow> py_get data ''issues'';
     py_iter (py_or c (JArr []))
   }"

text \<open>The loop \<open>for _ in range(max_pages)\<close>, with the pages still allowed as first recursion argument.\<close>

fun walk_pages ::
    "nat \<Rightarrow> upstream \<Rightarrow> string option \<Rightarrow> nat \<Rightarrow> nat \<Rightarrow> json list \<Rightarrow> json list option" where
  "walk_pages 0 get jql page_size start_at issues = Some issues"
| "walk_pages (Suc n) get jql page_size start_at issues = do {
     chunk \<leftarrow> fetch_chunk get jql start_at;
     if length chunk < page_size then Some (issues @ chunk)
     else walk_pages n get jql page_size (start_at + page_size) (issues @ chunk)
   }"

text \<open>
  \<open>agile_sprint_issues_paginated(sprint_id, jql_fragment, fields, max_pages, page_size)\<close>
  returns \<open>(issues, used_server_filter)\<close>. An empty or missing \<open>jql_fragment\<close> sends no
  \<open>jql\<close> parameter. Any exception of the first walk starts the second one, without
  \<open>jql\<close>, from offset 0; an exception there leaves the function.
\<close>

definition agile_sprint_issues_paginated ::
    "upstream \<Rightarrow> string option \<Rightarrow> nat \<Rightarrow> nat \<Rightarrow> (json list \<times> bool) option" where
  "agile_sprint_issues_paginated get jql_fragment max_pages page_size =
     (case walk_pages max_pages get (if jql_fragment = Some [] then None else jql_fragment)
             page_size 0 [] of
        Some issues \<Rightarrow> Some (issues, True)
      | None \<Rightarrow>
          (case walk_pages max_pages get None page_size 0 [] of
             Some issues \<Rightarrow> Some (issues, False)
           | None \<Rightarrow> None))"


subsection \<open>Sample upstream with overlapping pages\<close>




section \<open>Engineering-metrics day series\<close>

text \<open>\<open>_daterange_inclusive(start_date, end_date)\<close> and its \<open>while d <= end\<close> loop.\<close>

function daterange_loop :: "date \<Rightarrow> date \<Rightarrow> date list \<Rightarrow> date list option" where
  "daterange_loop d e days =
     (if d \<le> e then
        (case date_add_days d 1 of
           None \<Rightarrow> None
         | Some d' \<Rightarrow> daterange_loop d' e (days @ [d]))
      else Some days)"
  by pat_completeness auto
termination
  by (relation "measure (\<lambda>(d, e, days). nat (e - d + 1))")
     (auto simp: date_add_days_def split: if_splits)

definition daterange_inclusive :: "pylib \<Rightarrow> string \<Rightarrow> string \<Rightarrow> date list option" where
  "daterange_inclusive L start_date end_date = do {
     start \<leftarrow> date_fromisoformat L start_date;
     e \<leftarrow> date_fromisoformat L end_date;
     daterange_loop start e []
   }"

text \<open>
  The date of a raw row as the loop of \<open>_lb_timeseries_complete\<close> reads it: \<open>None\<close> when
  the row is skipped (no date, or a date that does not parse).
\<close>

definition row_date :: "pylib \<Rightarrow> json \<Rightarrow> date option" where
  "row_date L d = (if \<not> truthy d then None
                   else (case d of JStr s \<Rightarrow> date_fromisoformat L s | _ \<Rightarrow> None))"

text \<open>The loop \<open>for row in points\<close> filling the dict \<open>by_date_hours\<close>.\<close>

fun by_date_loop ::
    "pylib \<Rightarrow> string \<Rightarrow> json list \<Rightarrow> (date \<rightharpoonup> real) \<Rightarrow> (date \<rightharpoonup> real) option" where
  "by_date_loop L key [] by_date_hours = Some by_date_hours"
| "by_date_loop L key (row # rows) by_date_hours = do {
     d \<leftarrow> py_get row ''date'';
     (case row_date L d of
        None \<Rightarrow> by_date_loop L key rows by_date_hours
      | Some dt \<Rightarrow> do {
          v_min \<leftarrow> py_get row key;
          hours \<leftarrow> (if v_min \<noteq> JNull then map_option (\<lambda>v. v / 60) (py_float L v_min)
                     else Some 0);
          by_date_loop L key rows (by_date_hours(dt \<mapsto> hours))
        })
   }"

text \<open>\<open>_lb_timeseries_complete(points, start_date, end_date, key)\<close> returns \<open>(all_days, ys)\<close>.\<close>

definition lb_timeseries_complete ::
    "pylib \<Rightarrow> json list \<Rightarrow> string \<Rightarrow> string \<Rightarrow> string \<Rightarrow> (date list \<times> real list) option" where
  "lb_timeseries_complete L points start_date end_date key = do {
     all_days \<leftarrow> daterange_inclusive L start_date end_date;
     by_date_hours \<leftarrow> by_date_loop L key points Map.empty;
     Some (all_days,
           map (\<lambda>day. case by_date_hours day of Some v \<Rightarrow> v | None \<Rightarrow> 0) all_days)
   }"

text \<open>
  Vocabulary of the properties: a raw row is an object whose value under the metric key
  is null, absent or convertible to a number; its date is the one the loop reads.
\<close>

definition metric_row :: "pylib \<Rightarrow> string \<Rightarrow> json \<Rightarrow> bool" where
  "metric_row L key row =
     (case py_get row key of
        None \<Rightarrow> False
      | Some v \<Rightarrow> v = JNull \<or> py_float L v \<noteq> None)"

definition date_of_row :: "pylib \<Rightarrow> json \<Rightarrow> date option" where
  "date_of_row L row = (case py_get row ''date'' of None \<Rightarrow> None | Some d \<Rightarrow> row_date L d)"

subsection \<open>Sample day series\<close>

text \<open>
  A library that reads the first three days of 2024 (ordinals 738886 to 738888) and the
  last day of year 9999.
\<close>

definition lib1 :: pylib where
  "lib1 = \<lparr> float_str = (\<lambda>s. None),
            datetime_fromisoformat = map_of [(''2024-01-01T10:00:00.000+00:00'', 738886),
                                             (''2024-01-02T10:00:00.000+00:00'', 738887),
                                             (''2024-01-03T10:00:00.000+00:00'', 738888)],
            datetime_strptime = (\<lambda>s fmt. None),
            date_fromisoformat = map_of [(''2024-01-01'', 738886), (''2024-01-02'', 738887),
                                         (''2024-01-03'', 738888), (''9999-12-31'', 3652059)] \<rparr>"

definition points0 :: "json list" where
  "points0 = [JObj [(''date'', JStr ''2024-01-02''), (''coding_min'', JNum 120)]]"

section \<open>Configuration and issue helpers\<close>

text \<open>
  The values that the run discovers or reads from its environment before any table is
  built: \<open>STORY_POINTS_FIELD_IDS\<close> (primary field first), \<open>EPIC_LINK_FIELD_ID\<close>,
  \<open>TD_EPIC_KEY\<close> and \<open>STORY_TYPES\<close>.
\<close>

record config =
  story_points_field_ids :: "string list"
  epic_link_field_id :: string
  td_epic_key :: string
  story_types :: "string list"

definition AUDIT_ISSUE_TYPES :: "string list" where
  "AUDIT_ISSUE_TYPES = [''story'', ''task'']"

definition AUDIT_EXCLUDED_STATUS_NAMES :: "string list" where
  "AUDIT_EXCLUDED_STATUS_NAMES = [''cancelled'', ''canceled'', ''not needed'']"

text \<open>A method of \<open>str\<close> (\<open>strip\<close>, \<open>lower\<close>) called on a value: AttributeError unless it is a string.\<close>

fun py_str :: "json \<Rightarrow> string option" where
  "py_str (JStr s) = Some s"
| "py_str _ = None"

text \<open>The items of a value on which dict methods were called before.\<close>

fun dict_items :: "json \<Rightarrow> (string \<times> json) list option" where
  "dict_items (JObj kvs) = Some kvs"
| "dict_items _ = None"

text \<open>
  \<open>_field_sp_from_fields(fields_obj: dict)\<close>: the first effort field, in the discovered
  order, that is on the record, is not null and converts to a number; a value that
  does not convert is passed over (\<open>except Exception: pass\<close>). \<open>None\<close> is the return value
  \<open>None\<close> of the source, which never raises on a dict.
\<close>

fun field_sp_from_fields :: "pylib \<Rightarrow> string list \<Rightarrow> (string \<times> json) list \<Rightarrow> real option" where
  "field_sp_from_fields L [] fields_obj = None"
| "field_sp_from_fields L (fid # fids) fields_obj =
     (case map_of fields_obj fid of
        None \<Rightarrow> field_sp_from_fields L fids fields_obj
      | Some v \<Rightarrow>
          if v \<noteq> JNull then
            (case py_float L v of
               Some r \<Rightarrow> Some r
             | None \<Rightarrow> field_sp_from_fields L fids fields_obj)
          else field_sp_from_fields L fids fields_obj)"

text \<open>\<open>_is_done(fields)\<close>.\<close>

definition is_done :: "json \<Rightarrow> bool" where
  "is_done issue_fields =
     (case (do {
              s \<leftarrow> py_get issue_fields ''status'';
              sc \<leftarrow> py_get (py_or s (JObj [])) ''statusCategory'';
              py_get (py_or sc (JObj [])) ''key''
            }) of
        Some k \<Rightarrow> k = JStr ''done''
      | None \<Rightarrow> False)"

text \<open>
  A dict keyed by decoded JSON values: lists and dicts are unhashable (TypeError), and
  \<open>True\<close>, \<open>False\<close> are the keys 1 and 0.
\<close>

fun hash_key :: "json \<Rightarrow> json option" where
  "hash_key (JBool b) = Some (JNum (if b then 1 else 0))"
| "hash_key (JArr xs) = None"
| "hash_key (JObj kvs) = None"
| "hash_key k = Some k"

text \<open>\<open>completed + not_completed\<close>, as the items the loop then visits.\<close>

fun py_add_seq :: "json \<Rightarrow> json \<Rightarrow> json list option" where
  "py_add_seq (JArr xs) (JArr ys) = Some (xs @ ys)"
| "py_add_seq (JStr a) (JStr b) = Some (map (\<lambda>c. JStr [c]) (a @ b))"
| "py_add_seq _ _ = None"

text \<open>
  \<open>build_sp_map_from_report(report)\<close>: the loop body is inside \<open>try ... except: continue\<close>.
\<close>

fun sp_map_loop :: "pylib \<Rightarrow> json list \<Rightarrow> (json \<rightharpoonup> real) \<Rightarrow> (json \<rightharpoonup> real)" where
  "sp_map_loop L [] mp = mp"
| "sp_map_loop L (it # its) mp =
     sp_map_loop L its
       (case (do {
                est \<leftarrow> py_get it ''estimateStatistic'';
                k \<leftarrow> py_get it ''key'';
                hk \<leftarrow> hash_key k;
                Some (mp(hk \<mapsto> sp L est))
              }) of
          Some mp' \<Rightarrow> mp'
        | None \<Rightarrow> mp)"

definition build_sp_map_from_report :: "pylib \<Rightarrow> json \<Rightarrow> (json \<rightharpoonup> real) option" where
  "build_sp_map_from_report L report = do {
     c \<leftarrow> py_get_default report ''contents'' (JObj []);
     let contents = py_or c (JObj []);
     cs \<leftarrow> py_get_default contents ''completedIssues'' (JArr []);
     let completed = py_or cs (JArr []);
     ns \<leftarrow> py_get_default contents ''issuesNotCompletedInCurrentSprint'' (JArr []);
     let not_completed = py_or ns (JArr []);
     its \<leftarrow> py_add_seq completed not_completed;
     Some (sp_map_loop L its Map.empty)
   }"

text \<open>\<open>float(sp_map.get(key, 0.0))\<close>.\<close>

definition sp_map_get :: "(json \<rightharpoonup> real) \<Rightarrow> json \<Rightarrow> real option" where
  "sp_map_get sp_map key = do {
     hk \<leftarrow> hash_key key;
     Some (case sp_map hk of Some v \<Rightarrow> v | None \<Rightarrow> 0)
   }"

section \<open>Table builders\<close>

text \<open>
  A loop \<open>for it in issues\<close> whose body either leaves with \<open>continue\<close> (\<open>Some None\<close>),
  appends one row (\<open>Some (Some row)\<close>) or raises (\<open>None\<close>).
\<close>

fun for_rows :: "(json \<Rightarrow> 'row option option) \<Rightarrow> json list \<Rightarrow> 'row list option" where
  "for_rows body [] = Some []"
| "for_rows body (it # its) = do {
     r \<leftarrow> body it;
     rows \<leftarrow> for_rows body its;
     Some (case r of Some row \<Rightarrow> row # rows | None \<Rightarrow> rows)
   }"

text \<open>A row \<open>(key, name, sp, status_name)\<close> of the effort tables.\<close>

type_synonym sp_row = "json \<times> json \<times> real \<times> string"

text \<open>\<open>rows.sort(key=lambda r: r[2], reverse=True)\<close>: stable, largest effort first.\<close>

definition sort_sp_desc :: "sp_row list \<Rightarrow> sp_row list" where
  "sort_sp_desc rows = sort_key (\<lambda>(key, name, sp, status_name). - sp) rows"

text \<open>The body of the loop of \<open>top5_completed_stories\<close>.\<close>

definition top5_body ::
    "pylib \<Rightarrow> config \<Rightarrow> (json \<rightharpoonup> real) \<Rightarrow> bool \<Rightarrow> json \<Rightarrow> sp_row option option" where
  "top5_body L cfg sp_map used_server_filter it = do {
     fv \<leftarrow> py_get it ''fields'';
     let f = py_or fv (JObj []);
     if \<not> used_server_filter \<and> \<not> is_done f then Some None
     else do {
       ity \<leftarrow> py_get f ''issuetype'';
       nm \<leftarrow> py_get_default (py_or ity (JObj [])) ''name'' (JStr []);
       s \<leftarrow> py_str nm;
       let itype = lower (strip s);
       if itype \<notin> set [''story'', ''task''] then Some None
       else do {
         k \<leftarrow> py_get it ''key'';
         let key = py_or k (JStr []);
         name \<leftarrow> py_get_default f ''summary'' (JStr []);
         fields_obj \<leftarrow> dict_items f;
         sp \<leftarrow> (case field_sp_from_fields L (story_points_field_ids cfg) fields_obj of
                  Some v \<Rightarrow> Some v
                | None \<Rightarrow> sp_map_get sp_map key);
         st \<leftarrow> py_get f ''status'';
         sn \<leftarrow> py_get (py_or st (JObj [])) ''name'';
         t \<leftarrow> py_str (py_or sn (JStr []));
         Some (Some (key, name, sp, strip t))
       }
     }
   }"

text \<open>\<open>top5_completed_stories(report, sprint_id)\<close>.\<close>

definition top5_completed_stories ::
    "pylib \<Rightarrow> config \<Rightarrow> upstream \<Rightarrow> json \<Rightarrow> sp_row list option" where
  "top5_completed_stories L cfg get report = do {
     sp_map \<leftarrow> build_sp_map_from_report L report;
     (issues, used_server_filter) \<leftarrow>
       agile_sprint_issues_paginated get (Some ''statusCategory = Done'') 50 100;
     rows \<leftarrow> for_rows (top5_body L cfg sp_map used_server_filter) issues;
     Some (take 5 (sort_sp_desc rows))
   }"

text \<open>The body of the loop of \<open>completed_tech_debts_with_sp\<close>.\<close>

definition tech_debt_body ::
    "pylib \<Rightarrow> config \<Rightarrow> (json \<rightharpoonup> real) \<Rightarrow> bool \<Rightarrow> json \<Rightarrow> sp_row option option" where
  "tech_debt_body L cfg sp_map used_server_filter it = do {
     fv \<leftarrow> py_get it ''fields'';
     let f = py_or fv (JObj []);
     if \<not> used_server_filter \<and> \<not> is_done f then Some None
     else do {
       st \<leftarrow> py_get f ''status'';
       nm \<leftarrow> py_get_default (py_or st (JObj [])) ''name'' (JStr []);
       s \<leftarrow> py_str nm;
       let sname = lower (strip s);
       if sname \<in> set AUDIT_EXCLUDED_STATUS_NAMES then Some None
       else do {
         epic_val \<leftarrow> py_get f (epic_link_field_id cfg);
         epic_key \<leftarrow> (case epic_val of JObj kvs \<Rightarrow> py_get epic_val ''key'' | _ \<Rightarrow> Some epic_val);
         if epic_key \<noteq> JStr (td_epic_key cfg) then Some None
         else do {
           key \<leftarrow> py_get_default it ''key'' (JStr []);
           name \<leftarrow> py_get_default f ''summary'' (JStr []);
           fields_obj \<leftarrow> dict_items f;
           sp \<leftarrow> (case field_sp_from_fields L (story_points_field_ids cfg) fields_obj of
                    Some v \<Rightarrow> Some v
                  | None \<Rightarrow> sp_map_get sp_map key);
           sn \<leftarrow> py_get (py_or st (JObj [])) ''name'';
           t \<leftarrow> py_str (py_or sn (JStr []));
           Some (Some (key, name, sp, strip t))
         }
       }
     }
   }"

text \<open>\<open>completed_tech_debts_with_sp(report, sprint_id)\<close>.\<close>

definition completed_tech_debts_with_sp ::
    "pylib \<Rightarrow> config \<Rightarrow> upstream \<Rightarrow> json \<Rightarrow> sp_row list option" where
  "completed_tech_debts_with_sp L cfg get report = do {
     sp_map \<leftarrow> build_sp_map_from_report L report;
     (issues, used_server_filter) \<leftarrow>
       agile_sprint_issues_paginated get (Some ''statusCategory = Done'') 50 100;
     rows \<leftarrow> for_rows (tech_debt_body L cfg sp_map used_server_filter) issues;
     Some (sort_sp_desc rows)
   }"

text \<open>
  The filter sent by the two audits, \<open>status not in ("Cancelled","Canceled","Not Needed")\<close>:
  the names of \<open>AUDIT_EXCLUDED_STATUS_NAMES\<close> in title case, here in the order written in
  the source (a Python set has no fixed order).
\<close>

definition audit_jql :: string where
  "audit_jql = ''status not in ('' @ [CHR 0x22] @ ''Cancelled'' @ [CHR 0x22] @ '','' @
                [CHR 0x22] @ ''Canceled'' @ [CHR 0x22] @ '','' @
                [CHR 0x22] @ ''Not Needed'' @ [CHR 0x22] @ '')''"

text \<open>The list \<open>sp_vals\<close> of \<open>stories_tasks_without_sp\<close>.\<close>

fun sp_vals :: "pylib \<Rightarrow> string list \<Rightarrow> (string \<times> json) list \<Rightarrow> real list" where
  "sp_vals L [] f = []"
| "sp_vals L (fid # fids) f =
     (case map_of f fid of
        None \<Rightarrow> sp_vals L fids f
      | Some v \<Rightarrow>
          if v \<noteq> JNull then
            (case py_float L v of
               Some r \<Rightarrow> r # sp_vals L fids f
             | None \<Rightarrow> sp_vals L fids f)
          else sp_vals L fids f)"

text \<open>The body of the loop of \<open>stories_tasks_without_sp\<close>; a row is \<open>(key, summary, assignee)\<close>.\<close>

definition without_sp_body ::
    "pylib \<Rightarrow> config \<Rightarrow> json \<Rightarrow> (json \<times> json \<times> json) option option" where
  "without_sp_body L cfg it = do {
     fv \<leftarrow> py_get it ''fields'';
     let f = py_or fv (JObj []);
     ity \<leftarrow> py_get f ''issuetype'';
     nm \<leftarrow> py_get_default (py_or ity (JObj [])) ''name'' (JStr []);
     s \<leftarrow> py_str nm;
     let itype = lower s;
     if itype \<notin> set AUDIT_ISSUE_TYPES then Some None
     else do {
       fields_obj \<leftarrow> dict_items f;
       let vals = sp_vals L (story_points_field_ids cfg) fields_obj;
       let has_any = (length vals > 0);
       let sp_sum = (if has_any then sum_list vals else 0);
       if \<not> has_any \<or> sp_sum = 0 then do {
         a \<leftarrow> py_get f ''assignee'';
         dn \<leftarrow> py_get (py_or a (JObj [])) ''displayName'';
         k \<leftarrow> py_get it ''key'';
         sm \<leftarrow> py_get f ''summary'';
         Some (Some (py_or k (JStr []), py_or sm (JStr []), py_or dn (JStr ''-'')))
       } else Some None
     }
   }"

text \<open>\<open>stories_tasks_without_sp(sprint_id)\<close>; the flag of the walker is dropped (\<open>issues, _ = ...\<close>).\<close>

definition stories_tasks_without_sp ::
    "pylib \<Rightarrow> config \<Rightarrow> upstream \<Rightarrow> (json \<times> json \<times> json) list option" where
  "stories_tasks_without_sp L cfg get = do {
     (issues, used_server_filter) \<leftarrow> agile_sprint_issues_paginated get (Some audit_jql) 200 200;
     for_rows (without_sp_body L cfg) issues
   }"

subsection \<open>Sample issues\<close>

definition cfg0 :: config where
  "cfg0 = \<lparr> story_points_field_ids = [''customfield_1'', ''customfield_2''],
            epic_link_field_id = ''customfield_9'',
            td_epic_key = ''GV-2398'',
            story_types = [''Story'', ''Task''] \<rparr>"

text \<open>
  An issue as the agile endpoint returns it: key, summary, type, status name, status
  category, epic link and further fields.
\<close>

definition sprint_issue ::
    "string \<Rightarrow> string \<Rightarrow> string \<Rightarrow> string \<Rightarrow> string \<Rightarrow> json \<Rightarrow> (string \<times> json) list \<Rightarrow> json" where
  "sprint_issue k summary itype status cat epic others =
     JObj [(''key'', JStr k),
           (''fields'',
            JObj ([(''summary'', JStr summary),
                   (''issuetype'', JObj [(''name'', JStr itype)]),
                   (''status'', JObj [(''name'', JStr status),
                                      (''statusCategory'', JObj [(''key'', JStr cat)])]),
                   (''customfield_9'', epic)] @ others))]"

text \<open>An upstream that serves one short page of the given issues to every request.\<close>

definition one_page :: "json list \<Rightarrow> upstream" where
  "one_page issues jql start_at = Some (JObj [(''issues'', JArr issues)])"

text \<open>
  An upstream that rejects every request with a \<open>jql\<close> parameter and serves one short
  page otherwise.
\<close>

definition one_page_no_jql :: "json list \<Rightarrow> upstream" where
  "one_page_no_jql issues jql start_at =
     (case jql of Some q \<Rightarrow> None | None \<Rightarrow> Some (JObj [(''issues'', JArr issues)]))"

text \<open>A story closed as Cancelled (status category done), estimated at 3.\<close>

definition cancelled_story :: json where
  "cancelled_story =
     sprint_issue ''GV-1'' ''Dropped'' ''Story'' ''Cancelled'' ''done'' JNull
       [(''customfield_1'', JNum 3)]"

text \<open>A cancelled task without any estimate.\<close>

definition cancelled_unestimated :: json where
  "cancelled_unestimated =
     sprint_issue ''GV-2'' ''Dropped too'' ''Task'' ''Cancelled'' ''done'' JNull []"

text \<open>A finished and a cancelled item under the tech-debt epic.\<close>

definition debt_done :: json where
  "debt_done =
     sprint_issue ''GV-3'' ''Pay debt'' ''Task'' ''Done'' ''done'' (JStr ''GV-2398'')
       [(''customfield_1'', JNum 2)]"

definition debt_cancelled :: json where
  "debt_cancelled =
     sprint_issue ''GV-4'' ''Skip debt'' ''Task'' ''CANCELLED'' ''done'' (JStr ''GV-2398'')
       [(''customfield_1'', JNum 8)]"

section \<open>Burndown\<close>

text \<open>\<open>s.endswith(suffix)\<close>.\<close>

definition endswith :: "string \<Rightarrow> string \<Rightarrow> bool" where
  "endswith s suffix =
     (length suffix \<le> length s \<and> drop (length s - length suffix) s = suffix)"

fun first_some :: "'a option list \<Rightarrow> 'a option" where
  "first_some [] = None"
| "first_some (x # xs) = (case x of Some v \<Rightarrow> Some v | None \<Rightarrow> first_some xs)"

text \<open>
  \<open>parse_jira_date(s)\<close>, as the date of the datetime it returns: \<open>None\<close> for a missing
  value and for text that none of the parsers reads. A value that is no string makes
  every parser raise TypeError, which the function catches.
\<close>

definition parse_jira_date :: "pylib \<Rightarrow> json \<Rightarrow> date option" where
  "parse_jira_date L s =
     (if \<not> truthy s then None
      else (case s of
              JStr t \<Rightarrow>
                (let t' = (if endswith t ''+0000'' then take (length t - 5) t @ ''+00:00'' else t)
                 in (case datetime_fromisoformat L t' of
                       Some dt \<Rightarrow> Some dt
                     | None \<Rightarrow>
                         first_some (map (datetime_strptime L t')
                           [''%Y-%m-%dT%H:%M:%S.%f%z'', ''%Y-%m-%dT%H:%M:%S%z'',
                            ''%Y/%m/%d %H:%M''])))
            | _ \<Rightarrow> None))"

text \<open>
  The part of \<open>render_burndown_png_bytes(report_json, sprint_id, committed_sp, board_id)\<close>
  that computes the series; the plot drawn from them is not modelled. \<open>now_utc\<close> is the
  date of \<open>datetime.now(timezone.utc)\<close>.

  The daily buckets: from the start date to the completion date, else the planned end,
  else fourteen days after the start. The \<open>while d <= end_dt.date()\<close> loop is the loop of
  \<open>_daterange_inclusive\<close>.
\<close>

definition burndown_days :: "pylib \<Rightarrow> date \<Rightarrow> json \<Rightarrow> date list option" where
  "burndown_days L now_utc report_json = do {
     sv \<leftarrow> py_get_default (py_or report_json (JObj [])) ''sprint'' (JObj []);
     let sprint = py_or sv (JObj []);
     sd \<leftarrow> py_get sprint ''startDate'';
     let start_dt = (case parse_jira_date L sd of Some d \<Rightarrow> d | None \<Rightarrow> now_utc);
     cd \<leftarrow> py_get sprint ''completeDate'';
     ed \<leftarrow> (if truthy cd then Some cd else py_get sprint ''endDate'');
     end_dt \<leftarrow> (case parse_jira_date L ed of
                   Some d \<Rightarrow> Some d
                 | None \<Rightarrow> date_add_days start_dt 14);
     daterange_loop start_dt end_dt []
   }"

text \<open>
  The effort that the burndown adds for an issue:
  \<open>sp = _field_sp_from_fields(f); if sp is None: sp = 0.0\<close>.
\<close>

definition burndown_sp :: "pylib \<Rightarrow> config \<Rightarrow> (string \<times> json) list \<Rightarrow> real" where
  "burndown_sp L cfg fields_obj =
     (case field_sp_from_fields L (story_points_field_ids cfg) fields_obj of
        None \<Rightarrow> 0
      | Some v \<Rightarrow> v)"

text \<open>
  The loop \<open>for it in issues\<close> that fills \<open>done_by_day\<close>. \<open>days[0]\<close> raises IndexError on
  an empty list of days, \<open>done_by_day[day] += ...\<close> raises KeyError on a day without
  bucket.
\<close>

fun done_by_day_loop ::
    "pylib \<Rightarrow> config \<Rightarrow> date list \<Rightarrow> json list \<Rightarrow> (date \<rightharpoonup> real) \<Rightarrow> (date \<rightharpoonup> real) option" where
  "done_by_day_loop L cfg days [] done_by_day = Some done_by_day"
| "done_by_day_loop L cfg days (it # its) done_by_day = do {
     fv \<leftarrow> py_get it ''fields'';
     let f = py_or fv (JObj []);
     rd \<leftarrow> py_get f ''resolutiondate'';
     if \<not> truthy rd then done_by_day_loop L cfg days its done_by_day
     else (case parse_jira_date L rd of
             None \<Rightarrow> done_by_day_loop L cfg days its done_by_day
           | Some day \<Rightarrow>
               if days = [] then None
               else if day < hd days \<or> day > last days
               then done_by_day_loop L cfg days its done_by_day
               else do {
                 fields_obj \<leftarrow> dict_items f;
                 cur \<leftarrow> done_by_day day;
                 done_by_day_loop L cfg days its
                   (done_by_day(day \<mapsto> cur + burndown_sp L cfg fields_obj))
               })
   }"

text \<open>\<open>done_by_day.get(day, 0.0)\<close>.\<close>

definition done_on :: "(date \<rightharpoonup> real) \<Rightarrow> date \<Rightarrow> real" where
  "done_on done_by_day day = (case done_by_day day of Some v \<Rightarrow> v | None \<Rightarrow> 0)"

text \<open>The loop \<open>for day in days\<close> that accumulates \<open>cum\<close> and appends to \<open>remaining\<close>.\<close>

fun remaining_loop :: "real \<Rightarrow> (date \<rightharpoonup> real) \<Rightarrow> date list \<Rightarrow> real \<Rightarrow> real list" where
  "remaining_loop committed_sp done_by_day [] cum = []"
| "remaining_loop committed_sp done_by_day (day # days) cum =
     max (committed_sp - (cum + done_on done_by_day day)) 0
       # remaining_loop committed_sp done_by_day days (cum + done_on done_by_day day)"

text \<open>The result \<open>(days, remaining, ideal)\<close>; the issues come from the walker, unfiltered.\<close>

definition burndown_series ::
    "pylib \<Rightarrow> config \<Rightarrow> date \<Rightarrow> upstream \<Rightarrow> json \<Rightarrow> real
       \<Rightarrow> (date list \<times> real list \<times> real list) option" where
  "burndown_series L cfg now_utc get report_json committed_sp = do {
     days \<leftarrow> burndown_days L now_utc report_json;
     (issues, used_server_filter) \<leftarrow> agile_sprint_issues_paginated get None 300 200;
     done_by_day \<leftarrow>
       done_by_day_loop L cfg days issues (\<lambda>d. if d \<in> set days then Some 0 else None);
     let remaining = remaining_loop committed_sp done_by_day days 0;
     if days = [] then None
     else
       let total_days = max 1 (last days - hd days) in
       Some (days, remaining,
             map (\<lambda>i. committed_sp * (1 - real i / real_of_int total_days)) [0..<length days])
   }"

text \<open>
  Vocabulary of the properties: the effort the burndown reads from an issue, and the
  cumulative done effort up to the day of index \<open>i\<close>.
\<close>

definition issue_effort :: "pylib \<Rightarrow> config \<Rightarrow> json \<Rightarrow> real" where
  "issue_effort L cfg it =
     (case py_get it ''fields'' of
        None \<Rightarrow> 0
      | Some fv \<Rightarrow>
          (case dict_items (py_or fv (JObj [])) of
             None \<Rightarrow> 0
           | Some fields_obj \<Rightarrow> burndown_sp L cfg fields_obj))"

definition cumulative_done :: "(date \<rightharpoonup> real) \<Rightarrow> date list \<Rightarrow> nat \<Rightarrow> real" where
  "cumulative_done done_by_day days i = sum_list (map (done_on done_by_day) (take (Suc i) days))"

subsection \<open>Sample sprint\<close>

text \<open>A sprint from 2024-01-01 to 2024-01-03 and issues resolved inside it.\<close>

definition sprint0 :: json where
  "sprint0 = JObj [(''sprint'', JObj [(''startDate'', JStr ''2024-01-01T10:00:00.000+00:00''),
                                      (''endDate'', JStr ''2024-01-03T10:00:00.000+00:00'')])]"

definition resolved_issue :: "string \<Rightarrow> string \<Rightarrow> real \<Rightarrow> json" where
  "resolved_issue k resolved effort =
     JObj [(''key'', JStr k),
           (''fields'', JObj [(''resolutiondate'', JStr resolved),
                              (''customfield_1'', JNum effort)])]"

section \<open>Vocabulary of the effort audit\<close>

text \<open>
  An issue is in the scope of the missing-effort audit when the name of its issue type
  is, in lower case, one of \<open>AUDIT_ISSUE_TYPES\<close>; its assignee is well formed when it is
  missing, null or an object.
\<close>

definition audited_type :: "json \<Rightarrow> bool" where
  "audited_type issue_fields =
     (case (do {
              ity \<leftarrow> py_get issue_fields ''issuetype'';
              nm \<leftarrow> py_get_default (py_or ity (JObj [])) ''name'' (JStr []);
              py_str nm
            }) of
        Some s \<Rightarrow> lower s \<in> set AUDIT_ISSUE_TYPES
      | None \<Rightarrow> False)"

definition assignee_ok :: "json \<Rightarrow> bool" where
  "assignee_ok issue_fields =
     (case py_get issue_fields ''assignee'' of
        None \<Rightarrow> False
      | Some a \<Rightarrow> py_get (py_or a (JObj [])) ''displayName'' \<noteq> None)"

text \<open>
  An effort field is usable on a record when it is present, not null and its value
  converts with \<open>float\<close>: these are the fields at which \<open>_field_sp_from_fields\<close> returns.
\<close>

definition usable_effort :: "pylib \<Rightarrow> (string \<times> json) list \<Rightarrow> string \<Rightarrow> bool" where
  "usable_effort L f fid =
     (case map_of f fid of
        None \<Rightarrow> False
      | Some v \<Rightarrow> v \<noteq> JNull \<and> py_float L v \<noteq> None)"

text \<open>
  A record whose first effort field holds an integer too large for \<open>float\<close>; a finished
  story without any estimate whose key A is in the sprint report; a bug without estimate.
\<close>

definition passed_over_record :: "(string \<times> json) list" where
  "passed_over_record = [(''customfield_1'', JNum (10 ^ 309)), (''customfield_2'', JNum 3)]"

definition unestimated_story :: json where
  "unestimated_story = sprint_issue ''A'' ''No points'' ''Story'' ''Done'' ''done'' JNull []"

definition unestimated_bug :: json where
  "unestimated_bug = sprint_issue ''GV-7'' ''No points'' ''Bug'' ''To Do'' ''new'' JNull []"

text \<open>A task whose only estimate is in the second effort field, and one without estimate.\<close>

definition second_field_only :: "(string \<times> json) list" where
  "second_field_only = [(''customfield_1'', JNull), (''customfield_2'', JNum 3)]"

definition unestimated_task :: json where
  "unestimated_task = sprint_issue ''GV-6'' ''No points'' ''Task'' ''To Do'' ''new'' JNull []"

section \<open>Cross-epic action items\<close>














subsection \<open>Sample epic\<close>




section \<open>Verified properties\<close>

text \<open>The numbers of the sample inputs are far below the overflow bound of \<open>float\<close>.\<close>

lemma small_below_float_limit [simp]:
  "r \<le> 1000 \<Longrightarrow> r < float_limit"
proof -
  have "(1000::real) < float_limit" by (simp add: float_limit_def)
  then show "r \<le> 1000 \<Longrightarrow> r < float_limit" by simp
qed

subsection \<open>Working-day ageing\<close>

lemma working_days_loop_count:
  assumes "date_min \<le> d" and "today < date_max"
  shows "working_days_loop today d cnt =
           Some (cnt + int (card {x. d \<le> x \<and> x \<le> today \<and> weekday x < 5}))"
  using assms
proof (induction today d cnt rule: working_days_loop.induct)
  case (1 today d cnt)
  show ?case
  proof (cases "d \<le> today")
    case False
    then have e: "{x. d \<le> x \<and> x \<le> today \<and> weekday x < 5} = {}" by auto
    have "card {x. d \<le> x \<and> x \<le> today \<and> weekday x < 5} = 0" unfolding e by simp
    with False show ?thesis by (simp add: working_days_loop.simps[of today d cnt])
  next
    case True
    let ?S = "\<lambda>a. {x. a \<le> x \<and> x \<le> today \<and> weekday x < 5}"
    from True "1.prems" have add: "date_add_days d 1 = Some (d + 1)"
      by (simp add: date_add_days_def)
    have fin: "finite (?S (d + 1))"
      by (rule finite_subset[of _ "{d + 1 .. today}"]) auto
    have notin: "d \<notin> ?S (d + 1)" by simp
    have split: "?S d = (if weekday d < 5 then insert d (?S (d + 1)) else ?S (d + 1))"
      using True by (auto simp: order_le_less)
    have card: "int (card (?S d)) = (if weekday d < 5 then 1 else 0) + int (card (?S (d + 1)))"
      using fin notin by (simp add: split)
    have IH: "working_days_loop today (d + 1) (if weekday d < 5 then cnt + 1 else cnt) =
                Some ((if weekday d < 5 then cnt + 1 else cnt) + int (card (?S (d + 1))))"
      using "1.IH"[OF True add] "1.prems" by simp
    show ?thesis
      using True add IH card by (simp add: working_days_loop.simps[of today d cnt])
  qed
qed

text \<open>
  The reference date 9999-12-31 is the one place where the loop of the source cannot
  step past \<open>today\<close>: the addition of one day raises OverflowError.
\<close>

lemma working_days_since_date_max:
  "working_days_since (Some 3652050) date_max = None"
  by (simp add: working_days_since_def date_add_days_def date_min_def date_max_def weekday_def)

text \<open>
  Claim C8. For a creation date \<open>c\<close> and a reference date \<open>today\<close> (before the last
  representable date), \<open>working_days_since\<close> returns the number of days \<open>d\<close> with
  \<open>c < d \<le> today\<close> that fall on Monday to Friday. An item created today or later has
  age 0, the result is never negative, a missing creation date gives 0, and an item
  created on a Friday and evaluated on the following Monday has age 1.
\<close>

theorem working_days_since_counts:
  assumes "date_min \<le> c" and "today < date_max"
  shows "working_days_since (Some c) today =
           Some (int (card {d. c < d \<and> d \<le> today \<and> weekday d < 5}))
       \<and> (today \<le> c \<longrightarrow> working_days_since (Some c) today = Some 0)
       \<and> (\<forall>n. working_days_since (Some c) today = Some n \<longrightarrow> 0 \<le> n)
       \<and> working_days_since None today = Some 0
       \<and> (weekday c = 4 \<and> today = c + 3 \<longrightarrow> working_days_since (Some c) today = Some 1)"
proof -
  let ?S = "{d. c < d \<and> d \<le> today \<and> weekday d < 5}"
  have main: "working_days_since (Some c) today = Some (int (card ?S))"
  proof (cases "today \<le> c")
    case True
    then have e: "?S = {}" by auto
    have "card ?S = 0" unfolding e by simp
    with True show ?thesis by (simp add: working_days_since_def)
  next
    case False
    with assms have add: "date_add_days c 1 = Some (c + 1)"
      by (simp add: date_add_days_def)
    have eq: "{x. c + 1 \<le> x \<and> x \<le> today \<and> weekday x < 5} = ?S" by auto
    from assms have "working_days_loop today (c + 1) 0 = Some (0 + int (card ?S))"
      using working_days_loop_count[of "c + 1" today 0] eq by simp
    with False add show ?thesis by (simp add: working_days_since_def)
  qed
  have zero: "today \<le> c \<longrightarrow> working_days_since (Some c) today = Some 0"
    by (simp add: working_days_since_def)
  have none: "working_days_since None today = Some 0"
    by (simp add: working_days_since_def)
  have fri: "weekday c = 4 \<and> today = c + 3 \<longrightarrow> working_days_since (Some c) today = Some 1"
  proof
    assume h: "weekday c = 4 \<and> today = c + 3"
    then have "?S = {c + 3}"
      unfolding weekday_def by (auto; presburger)
    with main show "working_days_since (Some c) today = Some 1" by simp
  qed
  from main zero none fri show ?thesis by simp
qed

text \<open>Friday 2024-01-05 (ordinal 738890) evaluated on Monday 2024-01-08.\<close>

theorem working_days_since_counts_witness:
  "date_min \<le> 738890 \<and> 738893 < date_max \<and> weekday 738890 = 4
     \<and> working_days_since (Some 738890) 738893 = Some 1"
proof -
  have a: "date_min \<le> 738890" by (simp add: date_min_def)
  have b: "738893 < date_max" by (simp add: date_max_def)
  have c: "weekday 738890 = 4 \<and> (738893::int) = 738890 + 3" by (simp add: weekday_def)
  from working_days_since_counts[OF a b] c
  have "working_days_since (Some 738890) 738893 = Some 1" by blast
  with a b c show ?thesis by blast
qed

subsection \<open>Committed and completed effort\<close>


lemma py_get_default_Some:
  "py_get j k = Some v \<Longrightarrow> v \<noteq> JNull \<Longrightarrow> py_get_default j k d = Some v"
  by (cases j) (auto simp: py_get_def split: option.splits)

lemma sum_sp_items:
  "\<forall>it\<in>set its. report_item it \<Longrightarrow>
   sum_sp L its acc = Some (acc + sum_list (map (item_effort L) its))"
proof (induction its arbitrary: acc)
  case Nil
  then show ?case by simp
next
  case (Cons it its)
  from Cons.prems obtain kvs where it: "it = JObj kvs" by (cases it) auto
  from Cons.prems have "\<forall>it\<in>set its. report_item it" by simp
  from Cons.IH[OF this] show ?case
    by (simp add: it py_get_def item_effort_def add.assoc)
qed

lemma committed_loop_items:
  "\<forall>it\<in>set its. report_item it \<Longrightarrow>
   committed_loop L added its acc =
     Some (acc + sum_list (map (item_effort L)
                  (filter (\<lambda>it. item_key it \<notin> JStr ` set added) its)))"
proof (induction its arbitrary: acc)
  case Nil
  then show ?case by simp
next
  case (Cons it its)
  from Cons.prems obtain kvs where it: "it = JObj kvs" by (cases it) auto
  from Cons.prems have ri: "report_item (JObj kvs)" by (simp add: it)
  obtain k where k: "py_get it ''key'' = Some k" by (simp add: it py_get_def)
  have ik: "item_key it = k" by (simp add: item_key_def k)
  from ri k have inb: "py_in_strs k added = Some (k \<in> JStr ` set added)"
    by (cases k) (auto simp: it py_get_def split: option.splits)
  from Cons.prems have "\<forall>it\<in>set its. report_item it" by simp
  note IH = Cons.IH[OF this]
  obtain est where est: "py_get it ''estimateStatistic'' = Some est" by (simp add: it py_get_def)
  have ie: "item_effort L it = sp L est" by (simp add: item_effort_def est)
  show ?case
    by (simp add: k inb ik est ie IH add.assoc)
qed

text \<open>
  Claim C1. For a sprint report with a completed-issue list \<open>cs\<close>, a not-completed-issue
  list \<open>ns\<close> and a map \<open>added\<close> of the keys added during the sprint, the fallback
  computation returns: as committed effort the sum of the efforts of the items of
  \<open>cs\<close> and \<open>ns\<close> whose key is not a key of \<open>added\<close>; as completed effort the sum of the
  efforts of all items of \<open>cs\<close>; as scope-change count the number of keys of \<open>added\<close>; as
  carry-over count the length of \<open>ns\<close>.
\<close>

theorem fallback_reconciliation:
  assumes "py_get report ''contents'' = Some (JObj c)"
    and "map_of c ''completedIssues'' = Some (JArr cs)"
    and "map_of c ''issuesNotCompletedInCurrentSprint'' = Some (JArr ns)"
    and "map_of c ''issueKeysAddedDuringSprint'' = Some (JObj added)"
    and "\<forall>it\<in>set (cs @ ns). report_item it"
  shows "compute_committed_completed_from_report L report =
           Some (sum_list (map (item_effort L)
                   (filter (\<lambda>it. item_key it \<notin> JStr ` fst ` set added) (cs @ ns))),
                 sum_list (map (item_effort L) cs),
                 card (fst ` set added),
                 length ns)"
proof -
  from assms(2) have cne: "c \<noteq> []" by auto
  have g0: "py_get_default report ''contents'' (JObj []) = Some (JObj c)"
    using assms(1) by (rule py_get_default_Some) simp
  have contents: "py_or (JObj c) (JObj []) = JObj c" using cne by (simp add: py_or_def)
  have completed: "py_iter (py_or (JArr cs) (JArr [])) = Some cs" by (simp add: py_or_def)
  have not_completed: "py_iter (py_or (JArr ns) (JArr [])) = Some ns" by (simp add: py_or_def)
  have keys: "py_keys (py_or (JObj added) (JObj [])) = Some (map fst added)"
    by (simp add: py_or_def)
  from assms(5) have rc: "\<forall>it\<in>set cs. report_item it" and rn: "\<forall>it\<in>set ns. report_item it"
    by auto
  have card: "length (remdups (map fst added)) = card (fst ` set added)"
    by (simp add: length_remdups_card_conv)
  show ?thesis
    unfolding compute_committed_completed_from_report_def
    by (simp add: g0 contents assms(2,3,4) completed not_completed keys py_get_def
          sum_sp_items[OF rc] committed_loop_items[OF rc] committed_loop_items[OF rn] card
          add.assoc)
qed


lemma str999: "str_int 999 = ''999''"
  by code_simp

lemma str7: "str_int 7 = ''7''"
  by code_simp

lemma report0_value:
  "compute_committed_completed_from_report lib0 report0 = Some (35, 25, 1, 1)"
  by (simp add: compute_committed_completed_from_report_def report0_def report_entry_def
        py_get_def py_or_def sp_def)

theorem fallback_reconciliation_witness:
  "compute_committed_completed_from_report lib0 report0 = Some (35, 25, 1, 1)"
proof -
  let ?cs = "[report_entry ''A'' 20, report_entry ''B'' 5]"
  let ?ns = "[report_entry ''C'' 15]"
  let ?added = "[(''B'', JBool True)]"
  let ?c = "[(''completedIssues'', JArr ?cs), (''issuesNotCompletedInCurrentSprint'', JArr ?ns),
             (''issueKeysAddedDuringSprint'', JObj ?added)]"
  have 1: "py_get report0 ''contents'' = Some (JObj ?c)" by (simp add: report0_def py_get_def)
  have 2: "map_of ?c ''completedIssues'' = Some (JArr ?cs)" by simp
  have 3: "map_of ?c ''issuesNotCompletedInCurrentSprint'' = Some (JArr ?ns)" by simp
  have 4: "map_of ?c ''issueKeysAddedDuringSprint'' = Some (JObj ?added)" by simp
  have 5: "\<forall>it\<in>set (?cs @ ?ns). report_item it" by (simp add: report_entry_def)
  show ?thesis
    using fallback_reconciliation[OF 1 2 3 4 5, of lib0]
    by (simp add: item_effort_def item_key_def report_entry_def py_get_def py_or_def sp_def)
qed

text \<open>
  Claim C2. Whatever the velocity endpoint answers, the scope-change and carry-over counts
  of the metrics are those the fallback computation finds in the sprint report (and the
  run fails exactly when that computation fails); when the velocity endpoint supplies
  the pair of totals, only the committed and completed efforts are replaced by it.
\<close>

theorem counts_always_from_fallback:
  "map_option (\<lambda>(c, d, s, k). (s, k)) (main_sprint_metrics L velocity_json sprint_id report)
     = map_option (\<lambda>(c, d, s, k). (s, k)) (compute_committed_completed_from_report L report)
   \<and> (\<forall>est comp. get_committed_completed_from_velocity L velocity_json sprint_id
                     = (Some est, Some comp) \<longrightarrow>
        main_sprint_metrics L velocity_json sprint_id report
          = map_option (\<lambda>(c, d, s, k). (est, comp, s, k))
              (compute_committed_completed_from_report L report))"
  by (cases "compute_committed_completed_from_report L report")
     (auto simp: main_sprint_metrics_def split: prod.splits option.splits)

lemma velocity0_value:
  "get_committed_completed_from_velocity lib0 (Some velocity0) 7 = (Some 50, Some 35)"
  by (simp add: get_committed_completed_from_velocity_def velocity0_def py_get_def py_or_def str7)

theorem counts_always_from_fallback_witness:
  "get_committed_completed_from_velocity lib0 (Some velocity0) 7 = (Some 50, Some 35)
   \<and> main_sprint_metrics lib0 (Some velocity0) 7 report0 = Some (50, 35, 1, 1)"
  using counts_always_from_fallback[of lib0 "Some velocity0" 7 report0]
  by (simp add: velocity0_value report0_value)

text \<open>
  Claim C3. When the velocity endpoint answers and its entry map has no entry for the
  sprint id, the velocity reader returns no numbers and the metrics are exactly the
  result of the fallback computation on the same sprint report.
\<close>

theorem missing_entry_falls_back:
  assumes "velocity_json = Some vj"
    and "py_get vj ''velocityStatEntries'' = Some (JObj entries)"
    and "map_of entries (str_int sprint_id) = None"
  shows "get_committed_completed_from_velocity L velocity_json sprint_id = (None, None)
       \<and> main_sprint_metrics L velocity_json sprint_id report
           = compute_committed_completed_from_report L report"
proof -
  have g: "py_get_default vj ''velocityStatEntries'' (JObj []) = Some (JObj entries)"
    using assms(2) by (rule py_get_default_Some) simp
  have o: "py_or (JObj entries) (JObj []) = JObj entries \<or> entries = []"
    by (simp add: py_or_def)
  have e: "py_get (py_or (JObj entries) (JObj [])) (str_int sprint_id) = Some JNull"
    using assms(3) by (auto simp: py_or_def py_get_def)
  have v: "get_committed_completed_from_velocity L velocity_json sprint_id = (None, None)"
    unfolding get_committed_completed_from_velocity_def assms(1)
    by (simp add: g e) (simp add: py_or_def)
  then show ?thesis by (simp add: main_sprint_metrics_def)
qed

theorem missing_entry_falls_back_witness:
  "main_sprint_metrics lib0 (Some velocity0) 999 report0 = Some (35, 25, 1, 1)
   \<and> compute_committed_completed_from_report lib0 report0 = Some (35, 25, 1, 1)"
proof -
  let ?entries = "[(''7'', JObj [(''estimated'', JObj [(''value'', JNum 50)]),
                            (''completed'', JObj [(''value'', JNum 35)])])]"
  have 1: "py_get velocity0 ''velocityStatEntries'' = Some (JObj ?entries)"
    by (simp add: velocity0_def py_get_def)
  have 2: "map_of ?entries (str_int 999) = None" by (simp add: str999)
  from missing_entry_falls_back[OF refl 1 2, of lib0 report0] show ?thesis
    by (simp add: report0_value)
qed

subsection \<open>The walker of sprint issues\<close>










subsection \<open>Zero-filled day series\<close>

lemma daterange_loop_upto:
  assumes "date_min \<le> d" and "e < date_max"
  shows "daterange_loop d e days = Some (days @ [d..e])"
  using assms
proof (induction d e days rule: daterange_loop.induct)
  case (1 d e days)
  show ?case
  proof (cases "d \<le> e")
    case False
    then show ?thesis by (simp add: daterange_loop.simps[of d e days])
  next
    case True
    with "1.prems" have add: "date_add_days d 1 = Some (d + 1)"
      by (simp add: date_add_days_def)
    from "1.IH"[OF True add] "1.prems"
    have "daterange_loop (d + 1) e (days @ [d]) = Some ((days @ [d]) @ [d + 1..e])" by simp
    with True add show ?thesis
      by (simp add: daterange_loop.simps[of d e days] upto_rec1[of d e])
  qed
qed

lemma by_date_loop_untouched:
  assumes "\<forall>row\<in>set rows. metric_row L key row"
  shows "\<exists>m'. by_date_loop L key rows m = Some m' \<and>
           (\<forall>day. (\<forall>row\<in>set rows. date_of_row L row \<noteq> Some day) \<longrightarrow> m' day = m day)"
  using assms
proof (induction rows arbitrary: m)
  case Nil
  then show ?case by simp
next
  case (Cons row rows)
  from Cons.prems have mr: "metric_row L key row" and rest: "\<forall>row\<in>set rows. metric_row L key row"
    by auto
  from mr obtain kvs where row: "row = JObj kvs"
    by (cases row) (auto simp: metric_row_def py_get_def)
  obtain d where d: "py_get row ''date'' = Some d" by (simp add: row py_get_def)
  obtain v where v: "py_get row key = Some v" by (simp add: row py_get_def)
  have dr: "date_of_row L row = row_date L d" by (simp add: date_of_row_def d)
  show ?case
  proof (cases "row_date L d")
    case None
    from Cons.IH[OF rest, of m] None show ?thesis by (auto simp: d dr)
  next
    case (Some dt)
    have "\<exists>h. (if v \<noteq> JNull then map_option (\<lambda>v. v / 60) (py_float L v)
                     else Some 0) = Some h"
    proof (cases "v = JNull")
      case True
      then show ?thesis by simp
    next
      case False
      with mr v obtain y where "py_float L v = Some y" by (auto simp: metric_row_def)
      with False show ?thesis by (intro exI[of _ "y / 60"]) simp
    qed
    then obtain h where h: "(if v \<noteq> JNull then map_option (\<lambda>v. v / 60) (py_float L v)
                     else Some 0) = Some h" ..
    from Cons.IH[OF rest, of "m(dt \<mapsto> h)"] obtain m' where
      m': "by_date_loop L key rows (m(dt \<mapsto> h)) = Some m'"
      and keep: "\<forall>day. (\<forall>row\<in>set rows. date_of_row L row \<noteq> Some day) \<longrightarrow> m' day = (m(dt \<mapsto> h)) day"
      by blast
    have "by_date_loop L key (row # rows) m = Some m'"
      using h by (simp add: d Some v m')
    moreover have "\<forall>day. (\<forall>r\<in>set (row # rows). date_of_row L r \<noteq> Some day) \<longrightarrow> m' day = m day"
      using keep by (auto simp: dr Some)
    ultimately show ?thesis by blast
  qed
qed

text \<open>
  Claim C4. For start and end dates \<open>s \<le> e\<close> (the end before the last representable
  date) and raw rows whose metric values are null or numbers, the zero-fill builder
  returns the date axis of \<open>_daterange_inclusive\<close>, of length \<open>(e - s).days + 1\<close>, starting
  at \<open>s\<close> and increasing by one day at each index, a value list of the same length, and
  the value 0 at every date that no raw row carries.
\<close>

theorem zero_fill_series:
  assumes "date_fromisoformat L start_date = Some s"
    and "date_fromisoformat L end_date = Some e"
    and "date_min \<le> s" and "s \<le> e" and "e < date_max"
    and "\<forall>row\<in>set points. metric_row L key row"
  shows "\<exists>xs ys. lb_timeseries_complete L points start_date end_date key = Some (xs, ys)
           \<and> daterange_inclusive L start_date end_date = Some xs
           \<and> length xs = nat (e - s + 1)
           \<and> length ys = length xs
           \<and> (\<forall>i<length xs. xs ! i = s + int i)
           \<and> (\<forall>i. Suc i < length xs \<longrightarrow> xs ! Suc i = xs ! i + 1)
           \<and> (\<forall>i<length xs. (\<forall>row\<in>set points. date_of_row L row \<noteq> Some (xs ! i))
                 \<longrightarrow> ys ! i = 0)"
proof -
  have dr: "daterange_inclusive L start_date end_date = Some [s..e]"
    using daterange_loop_upto[OF assms(3,5), of "[]"]
    by (simp add: daterange_inclusive_def assms(1,2))
  from by_date_loop_untouched[OF assms(6), of Map.empty] obtain m where
    m: "by_date_loop L key points Map.empty = Some m"
    and keep: "\<forall>day. (\<forall>row\<in>set points. date_of_row L row \<noteq> Some day) \<longrightarrow> m day = None"
    by auto
  let ?ys = "map (\<lambda>day. case m day of Some v \<Rightarrow> v | None \<Rightarrow> 0) [s..e]"
  have r: "lb_timeseries_complete L points start_date end_date key = Some ([s..e], ?ys)"
    by (simp add: lb_timeseries_complete_def dr m)
  have len: "length [s..e] = nat (e - s + 1)" by simp
  have nth: "\<forall>i<length [s..e]. [s..e] ! i = s + int i"
    by (auto intro!: nth_upto)
  have step: "\<forall>i. Suc i < length [s..e] \<longrightarrow> [s..e] ! Suc i = [s..e] ! i + 1"
    using nth by auto
  have zero: "\<forall>i<length [s..e]. (\<forall>row\<in>set points. date_of_row L row \<noteq> Some ([s..e] ! i))
                 \<longrightarrow> ?ys ! i = 0"
    using keep by (auto simp del: length_upto)
  from r dr len nth step zero show ?thesis
    by (intro exI[of _ "[s..e]"] exI[of _ ?ys]) (simp del: length_upto)
qed

lemma points0_value:
  "lb_timeseries_complete lib1 points0 ''2024-01-01'' ''2024-01-03'' ''coding_min''
     = Some ([738886, 738887, 738888], [0, 2, 0])"
  by (simp add: lb_timeseries_complete_def daterange_inclusive_def lib1_def points0_def
        date_add_days_def date_min_def date_max_def py_get_def row_date_def)

theorem zero_fill_series_witness:
  "lb_timeseries_complete lib1 points0 ''2024-01-01'' ''2024-01-03'' ''coding_min''
     = Some ([738886, 738887, 738888], [0, 2, 0])
   \<and> length [738886, 738887, 738888 :: int] = nat (738888 - 738886 + 1)"
proof -
  have 1: "date_fromisoformat lib1 ''2024-01-01'' = Some 738886" by (simp add: lib1_def)
  have 2: "date_fromisoformat lib1 ''2024-01-03'' = Some 738888" by (simp add: lib1_def)
  have 3: "date_min \<le> 738886" by (simp add: date_min_def)
  have 4: "(738886::int) \<le> 738888" by simp
  have 5: "738888 < date_max" by (simp add: date_max_def)
  have 6: "\<forall>row\<in>set points0. metric_row lib1 ''coding_min'' row"
    by (simp add: points0_def metric_row_def py_get_def)
  from zero_fill_series[OF 1 2 3 4 5 6] points0_value show ?thesis by auto
qed

text \<open>
  A range that ends on 9999-12-31 is the one place where the loop of
  \<open>_daterange_inclusive\<close> cannot step past the end: the addition of one day raises
  OverflowError.
\<close>

lemma daterange_inclusive_date_max:
  "daterange_inclusive lib1 ''9999-12-31'' ''9999-12-31'' = None"
  by (simp add: daterange_inclusive_def lib1_def date_add_days_def date_min_def date_max_def)



subsection \<open>Status exclusion in the tables\<close>

lemma one_page_walk:
  assumes "length issues < page_size" and "0 < max_pages"
  shows "agile_sprint_issues_paginated (one_page issues) jql max_pages page_size
           = Some (issues, True)"
proof -
  from assms(2) obtain n where n: "max_pages = Suc n" by (cases max_pages) auto
  have "fetch_chunk (one_page issues) j 0 = Some issues" for j
    by (cases issues) (simp_all add: fetch_chunk_def one_page_def py_get_def py_or_def)
  with assms(1) show ?thesis
    by (simp add: agile_sprint_issues_paginated_def n)
qed

lemma one_page_no_jql_walk:
  assumes "length issues < page_size" and "0 < max_pages" and "q \<noteq> []"
  shows "agile_sprint_issues_paginated (one_page_no_jql issues) (Some q) max_pages page_size
           = Some (issues, False)"
proof -
  from assms(2) obtain n where n: "max_pages = Suc n" by (cases max_pages) auto
  have a: "fetch_chunk (one_page_no_jql issues) None 0 = Some issues"
    by (cases issues) (simp_all add: fetch_chunk_def one_page_no_jql_def py_get_def py_or_def)
  have b: "fetch_chunk (one_page_no_jql issues) (Some q) 0 = None"
    by (simp add: fetch_chunk_def one_page_no_jql_def)
  from assms(1,3) a b show ?thesis
    by (simp add: agile_sprint_issues_paginated_def n)
qed

lemma lower_strip_Story: "lower (strip ''Story'') = ''story''"
  by code_simp

lemma strip_Cancelled: "strip ''Cancelled'' = ''Cancelled''"
  by code_simp

lemma lower_Cancelled: "lower ''Cancelled'' = ''cancelled''"
  by code_simp

lemma report0_sp_map: "build_sp_map_from_report lib0 report0 \<noteq> None"
  by (simp add: build_sp_map_from_report_def report0_def py_get_def py_or_def)

lemma top5_body_cancelled:
  "top5_body lib0 cfg0 sp_map True cancelled_story
     = Some (Some (JStr ''GV-1'', JStr ''Dropped'', 3, ''Cancelled''))"
  by (simp add: top5_body_def cancelled_story_def sprint_issue_def py_get_def py_or_def
        cfg0_def lower_strip_Story strip_Cancelled)

text \<open>
  Claim C7 as stated fails for the top completed items: \<open>top5_completed_stories\<close> has no
  test of the status name, and a story closed as Cancelled is listed.
\<close>

theorem top5_keeps_cancelled_counterexample:
  "top5_completed_stories lib0 cfg0 (one_page [cancelled_story]) report0
     = Some [(JStr ''GV-1'', JStr ''Dropped'', 3, ''Cancelled'')]
   \<and> lower ''Cancelled'' \<in> set AUDIT_EXCLUDED_STATUS_NAMES"
proof -
  obtain m where m: "build_sp_map_from_report lib0 report0 = Some m"
    using report0_sp_map by blast
  have w: "agile_sprint_issues_paginated (one_page [cancelled_story])
             (Some ''statusCategory = Done'') 50 100 = Some ([cancelled_story], True)"
    by (rule one_page_walk) simp_all
  show ?thesis
    by (simp add: top5_completed_stories_def m w top5_body_cancelled sort_sp_desc_def
          lower_Cancelled AUDIT_EXCLUDED_STATUS_NAMES_def)
qed

lemma for_rows_member:
  assumes "for_rows body its = Some rows" and "row \<in> set rows"
  shows "\<exists>it\<in>set its. body it = Some (Some row)"
  using assms
proof (induction its arbitrary: rows)
  case Nil
  then show ?case by simp
next
  case (Cons it its)
  from Cons.prems(1) obtain r rest where r: "body it = Some r"
    and rest: "for_rows body its = Some rest"
    and rows: "rows = (case r of Some row \<Rightarrow> row # rest | None \<Rightarrow> rest)"
    by (auto split: bind_splits)
  show ?case
  proof (cases "row \<in> set rest")
    case True
    with Cons.IH[OF rest] show ?thesis by auto
  next
    case False
    with Cons.prems(2) rows have "r = Some row" by (cases r) auto
    with r show ?thesis by simp
  qed
qed

lemma for_rows_contains:
  assumes "for_rows body its = Some rows" and "it \<in> set its" and "body it = Some (Some row)"
  shows "row \<in> set rows"
  using assms
proof (induction its arbitrary: rows)
  case Nil
  then show ?case by simp
next
  case (Cons a its)
  from Cons.prems(1) obtain r rest where r: "body a = Some r"
    and rest: "for_rows body its = Some rest"
    and rows: "rows = (case r of Some row \<Rightarrow> row # rest | None \<Rightarrow> rest)"
    by (auto split: bind_splits)
  show ?case
  proof (cases "it = a")
    case True
    with r Cons.prems(3) rows show ?thesis by simp
  next
    case False
    with Cons.prems(2) have "it \<in> set its" by simp
    from Cons.IH[OF rest this Cons.prems(3)] rows show ?thesis by (cases r) auto
  qed
qed

lemma status_name_twice:
  assumes "py_get_default j ''name'' (JStr []) = Some nm" and "py_str nm = Some s"
    and "py_get j ''name'' = Some sn" and "py_str (py_or sn (JStr [])) = Some t"
  shows "t = s"
proof -
  from assms(1) obtain kvs where j: "j = JObj kvs" by (cases j) auto
  show ?thesis
  proof (cases "map_of kvs ''name''")
    case None
    with assms j show ?thesis by (auto simp: py_get_def py_or_def)
  next
    case (Some v)
    with assms(1,2) j have "v = JStr s" by (cases v) auto
    with assms(3,4) j Some show ?thesis by (auto simp: py_get_def py_or_def split: if_splits)
  qed
qed

lemma tech_debt_body_status:
  assumes "tech_debt_body L cfg sp_map used it = Some (Some (key, name, effort, status_name))"
  shows "lower status_name \<notin> set AUDIT_EXCLUDED_STATUS_NAMES"
proof -
  from assms obtain fv where fv: "py_get it ''fields'' = Some fv"
    by (auto simp: tech_debt_body_def split: bind_splits)
  let ?f = "py_or fv (JObj [])"
  from assms fv obtain st where st: "py_get ?f ''status'' = Some st"
    by (auto simp: tech_debt_body_def Let_def split: bind_splits if_splits)
  let ?j = "py_or st (JObj [])"
  from assms fv st obtain nm s where nm: "py_get_default ?j ''name'' (JStr []) = Some nm"
    and s: "py_str nm = Some s"
    by (auto simp: tech_debt_body_def Let_def split: bind_splits if_splits)
  from assms fv st nm s have ex: "lower (strip s) \<notin> set AUDIT_EXCLUDED_STATUS_NAMES"
    by (auto simp: tech_debt_body_def Let_def split: bind_splits if_splits)
  from assms fv st nm s ex obtain sn t where sn: "py_get ?j ''name'' = Some sn"
    and t: "py_str (py_or sn (JStr [])) = Some t" and sname: "status_name = strip t"
    by (auto simp: tech_debt_body_def Let_def split: bind_splits if_splits)
  from status_name_twice[OF nm s sn t] have ts: "t = s" .
  from ex sname ts show ?thesis by simp
qed

text \<open>
  Claim C7 (as amended). No row returned by \<open>completed_tech_debts_with_sp\<close> carries a
  status name that is, in lower case, one of cancelled, canceled or not needed; the
  test is made on the rows themselves, whether the walker used the server-side filter
  or not.
\<close>

theorem tech_debt_excludes_terminal_statuses:
  assumes "completed_tech_debts_with_sp L cfg get report = Some rows"
    and "(key, name, effort, status_name) \<in> set rows"
  shows "lower status_name \<notin> set AUDIT_EXCLUDED_STATUS_NAMES"
proof -
  from assms(1) obtain sp_map issues used body_rows where
    fr: "for_rows (tech_debt_body L cfg sp_map used) issues = Some body_rows"
    and rows: "rows = sort_sp_desc body_rows"
    by (auto simp: completed_tech_debts_with_sp_def split: bind_splits)
  from assms(2) rows have "(key, name, effort, status_name) \<in> set body_rows"
    by (simp add: sort_sp_desc_def)
  from for_rows_member[OF fr this] obtain it where
    "tech_debt_body L cfg sp_map used it = Some (Some (key, name, effort, status_name))"
    by blast
  then show ?thesis by (rule tech_debt_body_status)
qed

lemma lower_strip_CANCELLED: "lower (strip ''CANCELLED'') = ''cancelled''"
  by code_simp

lemma lower_strip_Done: "lower (strip ''Done'') = ''done''"
  by code_simp

lemma strip_Done: "strip ''Done'' = ''Done''"
  by code_simp

lemma lower_Done: "lower ''Done'' = ''done''"
  by code_simp

lemma tech_debt_value:
  "completed_tech_debts_with_sp lib0 cfg0 (one_page_no_jql [debt_cancelled, debt_done]) report0
     = Some [(JStr ''GV-3'', JStr ''Pay debt'', 2, ''Done'')]"
proof -
  obtain m where m: "build_sp_map_from_report lib0 report0 = Some m"
    using report0_sp_map by blast
  have w: "agile_sprint_issues_paginated (one_page_no_jql [debt_cancelled, debt_done])
             (Some ''statusCategory = Done'') 50 100 = Some ([debt_cancelled, debt_done], False)"
    by (rule one_page_no_jql_walk) simp_all
  have c: "tech_debt_body lib0 cfg0 m False debt_cancelled = Some None"
    by (simp add: tech_debt_body_def debt_cancelled_def sprint_issue_def py_get_def py_or_def
          is_done_def lower_strip_CANCELLED AUDIT_EXCLUDED_STATUS_NAMES_def)
  have d: "tech_debt_body lib0 cfg0 m False debt_done
             = Some (Some (JStr ''GV-3'', JStr ''Pay debt'', 2, ''Done''))"
    by (simp add: tech_debt_body_def debt_done_def sprint_issue_def py_get_def py_or_def
          is_done_def lower_strip_Done strip_Done lower_Done AUDIT_EXCLUDED_STATUS_NAMES_def
          cfg0_def)
  show ?thesis
    by (simp add: completed_tech_debts_with_sp_def m w c d sort_sp_desc_def)
qed

theorem tech_debt_excludes_terminal_statuses_witness:
  "completed_tech_debts_with_sp lib0 cfg0 (one_page_no_jql [debt_cancelled, debt_done]) report0
     = Some [(JStr ''GV-3'', JStr ''Pay debt'', 2, ''Done'')]
   \<and> lower ''Done'' \<notin> set AUDIT_EXCLUDED_STATUS_NAMES"
  using tech_debt_excludes_terminal_statuses[OF tech_debt_value,
          of "JStr ''GV-3''" "JStr ''Pay debt''" 2 "''Done''"] tech_debt_value
  by simp

lemma lower_Task: "lower ''Task'' = ''task''"
  by code_simp

lemma audit_jql_nonempty: "audit_jql \<noteq> []"
  by (simp add: audit_jql_def)

text \<open>
  When the server rejects the status filter, the audit of missing effort works on the
  unfiltered sprint and lists a cancelled task.
\<close>

lemma audit_fallback_keeps_cancelled:
  "stories_tasks_without_sp lib0 cfg0 (one_page_no_jql [cancelled_unestimated])
     = Some [(JStr ''GV-2'', JStr ''Dropped too'', JStr ''-'')]"
proof -
  have w: "agile_sprint_issues_paginated (one_page_no_jql [cancelled_unestimated])
             (Some audit_jql) 200 200 = Some ([cancelled_unestimated], False)"
    by (rule one_page_no_jql_walk) (simp_all add: audit_jql_nonempty)
  have b: "without_sp_body lib0 cfg0 cancelled_unestimated
             = Some (Some (JStr ''GV-2'', JStr ''Dropped too'', JStr ''-''))"
    by (simp add: without_sp_body_def cancelled_unestimated_def sprint_issue_def py_get_def
          py_or_def lower_Task AUDIT_ISSUE_TYPES_def cfg0_def)
  show ?thesis
    by (simp add: stories_tasks_without_sp_def w b)
qed

subsection \<open>Burndown series\<close>

lemma remaining_loop_length:
  "length (remaining_loop c dbd days cum) = length days"
  by (induction days arbitrary: cum) simp_all

lemma remaining_loop_nth:
  "i < length days \<Longrightarrow>
   remaining_loop c dbd days cum ! i
     = max (c - (cum + sum_list (map (done_on dbd) (take (Suc i) days)))) 0"
proof (induction days arbitrary: cum i)
  case Nil
  then show ?case by simp
next
  case (Cons day days)
  show ?case
  proof (cases i)
    case 0
    then show ?thesis by simp
  next
    case (Suc j)
    with Cons.prems have "j < length days" by simp
    from Cons.IH[OF this, of "cum + done_on dbd day"] Suc show ?thesis
      by (simp add: add.assoc)
  qed
qed

lemma done_by_day_loop_nonneg:
  assumes "done_by_day_loop L cfg days its dbd = Some dbd'"
    and "\<forall>it\<in>set its. 0 \<le> issue_effort L cfg it"
    and "\<forall>d v. dbd d = Some v \<longrightarrow> 0 \<le> v"
  shows "\<forall>d v. dbd' d = Some v \<longrightarrow> 0 \<le> v"
  using assms
proof (induction its arbitrary: dbd)
  case Nil
  then show ?case by simp
next
  case (Cons it its)
  from Cons.prems(1) obtain fv where fv: "py_get it ''fields'' = Some fv"
    by (auto split: bind_splits)
  let ?f = "py_or fv (JObj [])"
  from Cons.prems(1) fv obtain rd where rd: "py_get ?f ''resolutiondate'' = Some rd"
    by (auto simp: Let_def split: bind_splits)
  from Cons.prems(2) have rest: "\<forall>it\<in>set its. 0 \<le> issue_effort L cfg it" by simp
  consider (skip) "done_by_day_loop L cfg days its dbd = Some dbd'"
    | (add) day fo cur where "dict_items ?f = Some fo" "dbd day = Some cur"
        "done_by_day_loop L cfg days its (dbd(day \<mapsto> cur + burndown_sp L cfg fo)) = Some dbd'"
    using Cons.prems(1) fv rd
    by (auto simp: Let_def split: bind_splits if_splits option.splits)
  then show ?case
  proof cases
    case skip
    from Cons.IH[OF skip rest Cons.prems(3)] show ?thesis .
  next
    case add
    from Cons.prems(2) fv add(1) have e: "0 \<le> burndown_sp L cfg fo"
      by (simp add: issue_effort_def)
    from Cons.prems(3) add(2) have "0 \<le> cur" by blast
    with e Cons.prems(3)
    have inv: "\<forall>d v. (dbd(day \<mapsto> cur + burndown_sp L cfg fo)) d = Some v \<longrightarrow> 0 \<le> v"
      by auto
    from Cons.IH[OF add(3) rest inv] show ?thesis .
  qed
qed

text \<open>
  Claim C5 (as amended). Whenever the burndown builder computes its series, \<open>remaining\<close>
  has one value per day, \<open>remaining[i] = max(committed - cumulativeDone[i], 0)\<close> at every
  day index, and every element is non-negative; when no issue of the sprint carries a
  negative effort, \<open>remaining[i+1] \<le> remaining[i]\<close> for consecutive days.
\<close>

theorem burndown_remaining:
  assumes "burndown_series L cfg now_utc get report_json committed_sp
             = Some (days, remaining, ideal)"
  shows "\<exists>issues used done_by_day.
           agile_sprint_issues_paginated get None 300 200 = Some (issues, used)
         \<and> done_by_day_loop L cfg days issues (\<lambda>d. if d \<in> set days then Some 0 else None)
             = Some done_by_day
         \<and> length remaining = length days
         \<and> (\<forall>i<length days.
               remaining ! i = max (committed_sp - cumulative_done done_by_day days i) 0)
         \<and> (\<forall>i<length remaining. 0 \<le> remaining ! i)
         \<and> ((\<forall>it\<in>set issues. 0 \<le> issue_effort L cfg it) \<longrightarrow>
              (\<forall>i. Suc i < length remaining \<longrightarrow> remaining ! Suc i \<le> remaining ! i))"
proof -
  from assms obtain issues used dbd where
    w: "agile_sprint_issues_paginated get None 300 200 = Some (issues, used)"
    and d: "done_by_day_loop L cfg days issues (\<lambda>d. if d \<in> set days then Some 0 else None)
             = Some dbd"
    and r: "remaining = remaining_loop committed_sp dbd days 0"
    by (auto simp: burndown_series_def Let_def split: bind_splits if_splits)
  have len: "length remaining = length days" by (simp add: r remaining_loop_length)
  have nth: "\<forall>i<length days.
               remaining ! i = max (committed_sp - cumulative_done dbd days i) 0"
    by (simp add: r remaining_loop_nth cumulative_done_def)
  have nonneg: "\<forall>i<length remaining. 0 \<le> remaining ! i"
    using nth len by simp
  have mono: "(\<forall>it\<in>set issues. 0 \<le> issue_effort L cfg it) \<longrightarrow>
              (\<forall>i. Suc i < length remaining \<longrightarrow> remaining ! Suc i \<le> remaining ! i)"
  proof (intro impI allI)
    fix i
    assume eff: "\<forall>it\<in>set issues. 0 \<le> issue_effort L cfg it"
      and i: "Suc i < length remaining"
    have "\<forall>d v. (\<lambda>d. if d \<in> set days then Some (0::real) else None) d = Some v \<longrightarrow> 0 \<le> v"
      by auto
    from done_by_day_loop_nonneg[OF d eff this] have pos: "\<And>day. 0 \<le> done_on dbd day"
      by (auto simp: done_on_def split: option.splits)
    from i len have i': "Suc i < length days" by simp
    then have "take (Suc (Suc i)) days = take (Suc i) days @ [days ! Suc i]"
      by (simp add: take_Suc_conv_app_nth)
    then have "cumulative_done dbd days (Suc i)
                 = cumulative_done dbd days i + done_on dbd (days ! Suc i)"
      by (simp add: cumulative_done_def)
    with pos[of "days ! Suc i"] have "cumulative_done dbd days i \<le> cumulative_done dbd days (Suc i)"
      by simp
    with nth i' show "remaining ! Suc i \<le> remaining ! i" by simp
  qed
  from w d len nth nonneg mono show ?thesis by blast
qed

lemma parse_day1: "parse_jira_date lib1 (JStr ''2024-01-01T10:00:00.000+00:00'') = Some 738886"
  by (simp add: parse_jira_date_def lib1_def endswith_def)

lemma parse_day2: "parse_jira_date lib1 (JStr ''2024-01-02T10:00:00.000+00:00'') = Some 738887"
  by (simp add: parse_jira_date_def lib1_def endswith_def)

lemma parse_day3: "parse_jira_date lib1 (JStr ''2024-01-03T10:00:00.000+00:00'') = Some 738888"
  by (simp add: parse_jira_date_def lib1_def endswith_def)

lemma sprint0_days: "burndown_days lib1 now_utc sprint0 = Some [738886, 738887, 738888]"
  by (simp add: burndown_days_def sprint0_def py_get_def py_or_def parse_day1 parse_day3
        date_add_days_def date_min_def date_max_def)

lemma burndown_value:
  assumes "\<bar>effort\<bar> \<le> 1000"
  shows "burndown_series lib1 cfg0 now_utc
       (one_page [resolved_issue ''GV-5'' ''2024-01-02T10:00:00.000+00:00'' effort]) sprint0 10
     = Some ([738886, 738887, 738888],
             [10, max (10 - effort) 0, max (10 - effort) 0],
             [10, 5, 0])"
proof -
  have w: "agile_sprint_issues_paginated
             (one_page [resolved_issue ''GV-5'' ''2024-01-02T10:00:00.000+00:00'' effort])
             None 300 200
           = Some ([resolved_issue ''GV-5'' ''2024-01-02T10:00:00.000+00:00'' effort], True)"
    by (rule one_page_walk) simp_all
  have d: "done_by_day_loop lib1 cfg0 [738886, 738887, 738888]
             [resolved_issue ''GV-5'' ''2024-01-02T10:00:00.000+00:00'' effort]
             (\<lambda>d. if d \<in> set [738886, 738887, 738888] then Some 0 else None)
           = Some ((\<lambda>d. if d \<in> set [738886, 738887, 738888] then Some 0 else None)
                    (738887 \<mapsto> effort))"
    using assms
    by (simp add: resolved_issue_def py_get_def py_or_def parse_day2 burndown_sp_def cfg0_def)
  have i: "[0..<3] = [0, 1, 2]" by (simp add: upt_rec)
  show ?thesis
    using d
    by (simp add: burndown_series_def sprint0_days w done_on_def i
          del: done_by_day_loop.simps)
qed

text \<open>
  Claim C5 as stated fails: an issue with effort -5 resolved on the second day raises
  the remaining effort from 10 to 15.
\<close>

theorem burndown_negative_effort_counterexample:
  "burndown_series lib1 cfg0 738886
       (one_page [resolved_issue ''GV-5'' ''2024-01-02T10:00:00.000+00:00'' (- 5)]) sprint0 10
     = Some ([738886, 738887, 738888], [10, 15, 15], [10, 5, 0])
   \<and> \<not> [10, 15, 15 :: real] ! Suc 0 \<le> [10, 15, 15] ! 0"
  by (simp add: burndown_value)

theorem burndown_remaining_witness:
  "burndown_series lib1 cfg0 738886
       (one_page [resolved_issue ''GV-5'' ''2024-01-02T10:00:00.000+00:00'' 4]) sprint0 10
     = Some ([738886, 738887, 738888], [10, 6, 6], [10, 5, 0])
   \<and> [10, 6, 6 :: real] ! 1 \<le> [10, 6, 6] ! 0
   \<and> [10, 6, 6 :: real] ! 2 \<le> [10, 6, 6] ! 1"
proof -
  let ?it = "resolved_issue ''GV-5'' ''2024-01-02T10:00:00.000+00:00'' 4"
  have v: "burndown_series lib1 cfg0 738886 (one_page [?it]) sprint0 10
             = Some ([738886, 738887, 738888], [10, 6, 6], [10, 5, 0])"
    using burndown_value[where effort = 4 and now_utc = 738886] by simp
  have w: "agile_sprint_issues_paginated (one_page [?it]) None 300 200 = Some ([?it], True)"
    by (rule one_page_walk) simp_all
  have e: "issue_effort lib1 cfg0 ?it = 4"
    by (simp add: issue_effort_def resolved_issue_def py_get_def py_or_def burndown_sp_def
          cfg0_def)
  from burndown_remaining[OF v] w e
  have m: "\<forall>i. Suc i < length [10, 6, 6 :: real] \<longrightarrow> [10, 6, 6 :: real] ! Suc i \<le> [10, 6, 6] ! i"
    by auto
  from m[rule_format, of 0] m[rule_format, of 1] v show ?thesis by simp
qed


subsection \<open>Effort resolution\<close>

lemma field_sp_first_usable:
  assumes "\<forall>p\<in>set pre. \<not> usable_effort L f p"
    and "map_of f fid = Some v" and "v \<noteq> JNull" and "py_float L v = Some r"
  shows "field_sp_from_fields L (pre @ fid # post) f = Some r"
  using assms by (induction pre) (auto simp: usable_effort_def split: option.splits)

lemma field_sp_none_usable:
  assumes "\<forall>fid\<in>set ids. \<not> usable_effort L g fid"
  shows "field_sp_from_fields L ids g = None"
  using assms by (induction ids) (auto simp: usable_effort_def split: option.splits)

lemma sp_vals_none_usable:
  assumes "\<forall>fid\<in>set ids. \<not> usable_effort L g fid"
  shows "sp_vals L ids g = []"
  using assms by (induction ids) (auto simp: usable_effort_def split: option.splits)

lemma without_sp_body_flags:
  assumes "sp_vals L (story_points_field_ids cfg) g = []"
    and "py_get it ''fields'' = Some (JObj g)"
    and "audited_type (JObj g)" and "assignee_ok (JObj g)"
  shows "\<exists>row. without_sp_body L cfg it = Some (Some row)"
proof -
  have f: "py_or (JObj g) (JObj []) = JObj g" by (cases g) (simp_all add: py_or_def)
  from assms(3) obtain ity nm s where
    ity: "py_get (JObj g) ''issuetype'' = Some ity"
    and nm: "py_get_default (py_or ity (JObj [])) ''name'' (JStr []) = Some nm"
    and s: "py_str nm = Some s" and ty: "lower s \<in> set AUDIT_ISSUE_TYPES"
    by (auto simp: audited_type_def split: bind_splits option.splits)
  from assms(4) obtain a dn where a: "py_get (JObj g) ''assignee'' = Some a"
    and dn: "py_get (py_or a (JObj [])) ''displayName'' = Some dn"
    by (auto simp: assignee_ok_def split: option.splits)
  from assms(2) obtain k where k: "py_get it ''key'' = Some k"
    by (cases it) (auto simp: py_get_def)
  obtain sm where sm: "py_get (JObj g) ''summary'' = Some sm" by (simp add: py_get_def)
  show ?thesis
    using ty by (simp add: without_sp_body_def assms(1,2) f ity nm s a dn k sm)
qed

lemma top5_body_report_estimate:
  assumes "field_sp_from_fields L (story_points_field_ids cfg) g = None"
    and "py_get it ''fields'' = Some (JObj g)"
    and "top5_body L cfg sp_map used it = Some (Some (key, name, effort, status))"
  shows "sp_map_get sp_map key = Some effort"
proof -
  have f: "py_or (JObj g) (JObj []) = JObj g" by (cases g) (simp_all add: py_or_def)
  from assms(3) show ?thesis
    by (auto simp: top5_body_def assms(1,2) f Let_def split: bind_splits if_splits)
qed

lemma tech_debt_body_report_estimate:
  assumes "field_sp_from_fields L (story_points_field_ids cfg) g = None"
    and "py_get it ''fields'' = Some (JObj g)"
    and "tech_debt_body L cfg sp_map used it = Some (Some (key, name, effort, status))"
  shows "sp_map_get sp_map key = Some effort"
proof -
  have f: "py_or (JObj g) (JObj []) = JObj g" by (cases g) (simp_all add: py_or_def)
  from assms(3) show ?thesis
    by (auto simp: tech_debt_body_def assms(1,2) f Let_def split: bind_splits if_splits)
qed

text \<open>
  Claim C6 as stated fails: on a record whose first effort field is present and not
  null but holds an integer that \<open>float\<close> rejects, effort resolution passes that field
  over and returns the value of the second field.
\<close>

theorem effort_resolution_counterexample:
  "map_of passed_over_record ''customfield_1'' = Some (JNum (10 ^ 309))
   \<and> JNum (10 ^ 309) \<noteq> JNull
   \<and> field_sp_from_fields lib0 [''customfield_1'', ''customfield_2''] passed_over_record
       = Some 3"
  by (simp add: passed_over_record_def float_limit_def)

text \<open>The same happens for a value of another type, whatever the library.\<close>

lemma field_sp_skips_unconvertible:
  "field_sp_from_fields L [''customfield_1'', ''customfield_2'']
     [(''customfield_1'', JArr []), (''customfield_2'', JNum 3)] = Some 3"
  by simp

text \<open>
  Claim C6 (as amended). With the effort fields in their discovered order: when \<open>fid\<close> is
  the first of them that is usable on the record \<open>f\<close> (every field before it is absent,
  null or rejected by \<open>float\<close>) and its value converts to \<open>r\<close>, effort resolution returns
  \<open>r\<close>, wherever \<open>fid\<close> stands in the list. When no effort field is usable on the record
  \<open>g\<close>, effort resolution returns the absent marker \<open>None\<close>, not zero. For an issue with
  these fields the burndown then adds 0; a row of the top completed items or of the
  tech-debt items carries the estimate that the sprint report holds for the key (0.0
  when it holds none); and the missing-effort audit flags the issue when it is a story
  or task with a well-formed assignee: its row is in the result of the audit whenever
  the walker returned the issue.
\<close>

theorem effort_resolution:
  "(story_points_field_ids cfg = pre @ fid # post
      \<and> (\<forall>p\<in>set pre. \<not> usable_effort L f p)
      \<and> map_of f fid = Some v \<and> v \<noteq> JNull \<and> py_float L v = Some r
     \<longrightarrow> field_sp_from_fields L (story_points_field_ids cfg) f = Some r)
   \<and> ((\<forall>fid\<in>set (story_points_field_ids cfg). \<not> usable_effort L g fid)
     \<longrightarrow> field_sp_from_fields L (story_points_field_ids cfg) g = None
       \<and> burndown_sp L cfg g = 0
       \<and> (py_get it ''fields'' = Some (JObj g) \<longrightarrow>
            (\<forall>sp_map used key name effort status.
                top5_body L cfg sp_map used it = Some (Some (key, name, effort, status))
                \<or> tech_debt_body L cfg sp_map used it = Some (Some (key, name, effort, status))
                \<longrightarrow> sp_map_get sp_map key = Some effort)
            \<and> (audited_type (JObj g) \<and> assignee_ok (JObj g)
                 \<longrightarrow> (\<exists>row. without_sp_body L cfg it = Some (Some row)
                       \<and> (\<forall>get issues used rows.
                             agile_sprint_issues_paginated get (Some audit_jql) 200 200
                               = Some (issues, used)
                             \<and> it \<in> set issues
                             \<and> stories_tasks_without_sp L cfg get = Some rows
                             \<longrightarrow> row \<in> set rows)))))"
proof (intro conjI impI)
  assume "story_points_field_ids cfg = pre @ fid # post
      \<and> (\<forall>p\<in>set pre. \<not> usable_effort L f p)
      \<and> map_of f fid = Some v \<and> v \<noteq> JNull \<and> py_float L v = Some r"
  then show "field_sp_from_fields L (story_points_field_ids cfg) f = Some r"
    using field_sp_first_usable[of pre L f fid v r post] by simp
next
  assume n: "\<forall>fid\<in>set (story_points_field_ids cfg). \<not> usable_effort L g fid"
  then show none: "field_sp_from_fields L (story_points_field_ids cfg) g = None"
    by (rule field_sp_none_usable)
  then show "burndown_sp L cfg g = 0" by (simp add: burndown_sp_def)
  assume fl: "py_get it ''fields'' = Some (JObj g)"
  show "\<forall>sp_map used key name effort status.
          top5_body L cfg sp_map used it = Some (Some (key, name, effort, status))
          \<or> tech_debt_body L cfg sp_map used it = Some (Some (key, name, effort, status))
          \<longrightarrow> sp_map_get sp_map key = Some effort"
    using top5_body_report_estimate[OF none fl] tech_debt_body_report_estimate[OF none fl]
    by blast
  assume a: "audited_type (JObj g) \<and> assignee_ok (JObj g)"
  from sp_vals_none_usable[OF n] have v: "sp_vals L (story_points_field_ids cfg) g = []" .
  from without_sp_body_flags[OF v fl] a obtain row where
    row: "without_sp_body L cfg it = Some (Some row)" by blast
  have "\<forall>get issues used rows.
          agile_sprint_issues_paginated get (Some audit_jql) 200 200 = Some (issues, used)
          \<and> it \<in> set issues \<and> stories_tasks_without_sp L cfg get = Some rows
          \<longrightarrow> row \<in> set rows"
  proof (intro allI impI)
    fix get issues used rows
    assume h: "agile_sprint_issues_paginated get (Some audit_jql) 200 200 = Some (issues, used)
          \<and> it \<in> set issues \<and> stories_tasks_without_sp L cfg get = Some rows"
    then have "for_rows (without_sp_body L cfg) issues = Some rows"
      by (auto simp: stories_tasks_without_sp_def)
    from for_rows_contains[OF this _ row] h show "row \<in> set rows" by simp
  qed
  with row show "\<exists>row. without_sp_body L cfg it = Some (Some row)
                  \<and> (\<forall>get issues used rows.
                        agile_sprint_issues_paginated get (Some audit_jql) 200 200
                          = Some (issues, used)
                        \<and> it \<in> set issues
                        \<and> stories_tasks_without_sp L cfg get = Some rows
                        \<longrightarrow> row \<in> set rows)" by blast
qed

lemma unestimated_task_row:
  "without_sp_body lib0 cfg0 unestimated_task
     = Some (Some (JStr ''GV-6'', JStr ''No points'', JStr ''-''))"
  by (simp add: without_sp_body_def unestimated_task_def sprint_issue_def py_get_def
        py_or_def lower_Task AUDIT_ISSUE_TYPES_def cfg0_def)

text \<open>An issue of another type is outside the audit, with or without estimate.\<close>

lemma lower_Bug: "lower ''Bug'' = ''bug''"
  by code_simp

lemma unestimated_bug_skipped: "without_sp_body lib0 cfg0 unestimated_bug = Some None"
  by (simp add: without_sp_body_def unestimated_bug_def sprint_issue_def py_get_def
        py_or_def lower_Bug AUDIT_ISSUE_TYPES_def)

text \<open>
  The top completed items list the story without effort field under the 20 points that
  the sprint report holds for its key, not under zero.
\<close>

lemma top5_substitutes_report_estimate:
  "top5_completed_stories lib0 cfg0 (one_page [unestimated_story]) report0
     = Some [(JStr ''A'', JStr ''No points'', 20, ''Done'')]"
proof -
  have m: "build_sp_map_from_report lib0 report0
             = Some (Map.empty(JStr ''A'' \<mapsto> 20, JStr ''B'' \<mapsto> 5, JStr ''C'' \<mapsto> 15))"
    by (simp add: build_sp_map_from_report_def report0_def report_entry_def py_get_def
          py_or_def sp_def)
  have w: "agile_sprint_issues_paginated (one_page [unestimated_story])
             (Some ''statusCategory = Done'') 50 100 = Some ([unestimated_story], True)"
    by (rule one_page_walk) simp_all
  have b: "top5_body lib0 cfg0 (Map.empty(JStr ''A'' \<mapsto> 20, JStr ''B'' \<mapsto> 5, JStr ''C'' \<mapsto> 15))
             True unestimated_story
           = Some (Some (JStr ''A'', JStr ''No points'', 20, ''Done''))"
    by (simp add: top5_body_def unestimated_story_def sprint_issue_def py_get_def py_or_def
          cfg0_def lower_strip_Story strip_Done sp_map_get_def)
  show ?thesis
    by (simp add: top5_completed_stories_def m w b sort_sp_desc_def)
qed

theorem effort_resolution_witness:
  "field_sp_from_fields lib0 [''customfield_1'', ''customfield_2''] passed_over_record = Some 3
   \<and> field_sp_from_fields lib0 [''customfield_1'', ''customfield_2''] second_field_only = Some 3
   \<and> field_sp_from_fields lib0 [''customfield_1'', ''customfield_2'']
        (the (dict_items (the (py_get unestimated_task ''fields'')))) = None
   \<and> without_sp_body lib0 cfg0 unestimated_task
        = Some (Some (JStr ''GV-6'', JStr ''No points'', JStr ''-''))
   \<and> stories_tasks_without_sp lib0 cfg0 (one_page [unestimated_task])
        = Some [(JStr ''GV-6'', JStr ''No points'', JStr ''-'')]"
proof -
  let ?g = "[(''summary'', JStr ''No points''), (''issuetype'', JObj [(''name'', JStr ''Task'')]),
             (''status'', JObj [(''name'', JStr ''To Do''),
                                (''statusCategory'', JObj [(''key'', JStr ''new'')])]),
             (''customfield_9'', JNull)]"
  have ids: "story_points_field_ids cfg0 = [''customfield_1''] @ ''customfield_2'' # []"
    by (simp add: cfg0_def)
  have a1: "\<forall>p\<in>set [''customfield_1'']. \<not> usable_effort lib0 passed_over_record p"
    by (simp add: usable_effort_def passed_over_record_def float_limit_def)
  have a2: "map_of passed_over_record ''customfield_2'' = Some (JNum 3)"
    by (simp add: passed_over_record_def)
  have a3: "py_float lib0 (JNum 3) = Some 3" by simp
  have c1: "\<forall>p\<in>set [''customfield_1'']. \<not> usable_effort lib0 second_field_only p"
    by (simp add: usable_effort_def second_field_only_def)
  have c2: "map_of second_field_only ''customfield_2'' = Some (JNum 3)"
    by (simp add: second_field_only_def)
  have b1: "\<forall>fid\<in>set (story_points_field_ids cfg0). \<not> usable_effort lib0 ?g fid"
    by (simp add: cfg0_def usable_effort_def)
  have b2: "py_get unestimated_task ''fields'' = Some (JObj ?g)"
    by (simp add: unestimated_task_def sprint_issue_def py_get_def)
  have b3: "audited_type (JObj ?g)"
    by (simp add: audited_type_def py_get_def py_or_def lower_Task AUDIT_ISSUE_TYPES_def)
  have b4: "assignee_ok (JObj ?g)"
    by (simp add: assignee_ok_def py_get_def py_or_def)
  have w: "agile_sprint_issues_paginated (one_page [unestimated_task]) (Some audit_jql) 200 200
             = Some ([unestimated_task], True)"
    by (rule one_page_walk) simp_all
  have s: "stories_tasks_without_sp lib0 cfg0 (one_page [unestimated_task])
             = Some [(JStr ''GV-6'', JStr ''No points'', JStr ''-'')]"
    by (simp add: stories_tasks_without_sp_def w unestimated_task_row)
  note t = effort_resolution[of cfg0 "[''customfield_1'']" "''customfield_2''" "[]"
             lib0 passed_over_record "JNum 3" 3 ?g unestimated_task]
  note u = effort_resolution[of cfg0 "[''customfield_1'']" "''customfield_2''" "[]"
             lib0 second_field_only "JNum 3" 3 ?g unestimated_task]
  from t ids a1 a2 a3
  have A: "field_sp_from_fields lib0 (story_points_field_ids cfg0) passed_over_record = Some 3"
    by blast
  from u ids c1 c2 a3
  have C: "field_sp_from_fields lib0 (story_points_field_ids cfg0) second_field_only = Some 3"
    by blast
  from t b1 b2 b3 b4
  have B: "field_sp_from_fields lib0 (story_points_field_ids cfg0) ?g = None"
    by blast
  from A B C b2 s unestimated_task_row show ?thesis by (simp add: cfg0_def)
qed

subsection \<open>Action items of an epic\<close>
















end
